theory Spec2Isabelle
  imports Main
begin

section \<open>Python strings\<close>

text \<open>
  Strings are character lists. Only the string operations the program uses are
  modelled: \<^verbatim>\<open>str.lower\<close>, \<^verbatim>\<open>str.endswith\<close>, \<^verbatim>\<open>in\<close> on strings,
  \<^verbatim>\<open>str.replace\<close> of one character, \<^verbatim>\<open>str.split(sep)[0]\<close>, \<^verbatim>\<open>hex\<close>,
  \<^verbatim>\<open>str\<close> of a non-negative integer and \<^verbatim>\<open>os.path.join\<close> of two parts.
\<close>

text \<open>
  \<^verbatim>\<open>str.lower\<close> on ASCII: the twenty-six capital letters map to their small
  letters, every other character is kept.
\<close>

definition lower_char :: "char \<Rightarrow> char" where
  "lower_char c =
     (case map_of (zip ''ABCDEFGHIJKLMNOPQRSTUVWXYZ'' ''abcdefghijklmnopqrstuvwxyz'') c of
        None \<Rightarrow> c
      | Some l \<Rightarrow> l)"

definition lower :: "string \<Rightarrow> string" where
  "lower s = map lower_char s"

definition endswith :: "string \<Rightarrow> string \<Rightarrow> bool" where
  "endswith s suf = (length suf \<le> length s \<and> drop (length s - length suf) s = suf)"

fun startswith :: "string \<Rightarrow> string \<Rightarrow> bool" where
  "startswith s [] = True"
| "startswith [] (p # ps) = False"
| "startswith (c # cs) (p # ps) = (c = p \<and> startswith cs ps)"

text \<open>\<^verbatim>\<open>sub in s\<close>: \<open>sub\<close> occurs in \<open>s\<close> as a contiguous substring.\<close>

fun py_in :: "string \<Rightarrow> string \<Rightarrow> bool" where
  "py_in sub [] = (sub = [])"
| "py_in sub (c # cs) = (startswith (c # cs) sub \<or> py_in sub cs)"

text \<open>\<^verbatim>\<open>s.replace(a, b)\<close> for one-character \<open>a\<close> and \<open>b\<close>.\<close>

definition replace_char :: "char \<Rightarrow> char \<Rightarrow> string \<Rightarrow> string" where
  "replace_char a b s = map (\<lambda>c. if c = a then b else c) s"

text \<open>\<^verbatim>\<open>s.split(sep)[0]\<close> for a non-empty separator: the text before its first occurrence.\<close>

fun split_head :: "string \<Rightarrow> string \<Rightarrow> string" where
  "split_head sep [] = []"
| "split_head sep (c # cs) = (if startswith (c # cs) sep then [] else c # split_head sep cs)"

definition digit_char :: "nat \<Rightarrow> char" where
  "digit_char d = ''0123456789abcdef'' ! d"

function hex_digits :: "nat \<Rightarrow> string" where
  "hex_digits n = (if n < 16 then [digit_char n] else hex_digits (n div 16) @ [digit_char (n mod 16)])"
  by pat_completeness auto
termination
  by (relation "measure (\<lambda>n. n)") auto

declare hex_digits.simps [simp del]

text \<open>\<^verbatim>\<open>hex(n)\<close> for \<open>n \<ge> 0\<close>: the prefix \<^verbatim>\<open>0x\<close>, then lower-case digits with no leading zero.\<close>

definition py_hex :: "nat \<Rightarrow> string" where
  "py_hex n = ''0x'' @ hex_digits n"

function dec_digits :: "nat \<Rightarrow> string" where
  "dec_digits n = (if n < 10 then [digit_char n] else dec_digits (n div 10) @ [digit_char (n mod 10)])"
  by pat_completeness auto
termination
  by (relation "measure (\<lambda>n. n)") auto

declare dec_digits.simps [simp del]

text \<open>\<^verbatim>\<open>str(n)\<close> (also \<^verbatim>\<open>{n}\<close> in an f-string) for \<open>n \<ge> 0\<close>.\<close>

definition py_str_nat :: "nat \<Rightarrow> string" where
  "py_str_nat n = dec_digits n"

text \<open>
  \<^verbatim>\<open>os.path.join(a, b)\<close> on POSIX: an absolute \<open>b\<close> replaces \<open>a\<close>; otherwise the two are
  joined with one separator unless \<open>a\<close> is empty or already ends with one.
\<close>

definition os_path_join :: "string \<Rightarrow> string \<Rightarrow> string" where
  "os_path_join a b =
     (if startswith b ''/'' then b
      else if a = [] \<or> endswith a ''/'' then a @ b
      else a @ ''/'' @ b)"

section \<open>USB device manager\<close>

subsection \<open>Discovery\<close>

text \<open>
  A udev device as the program reads it: its device node and its property table
  (\<^verbatim>\<open>device.get(key, default)\<close>).
\<close>

record udev_device =
  device_node :: string
  properties :: "string \<rightharpoonup> string"

definition device_get :: "udev_device \<Rightarrow> string \<Rightarrow> string \<Rightarrow> string" where
  "device_get device key dflt = (case properties device key of None \<Rightarrow> dflt | Some v \<Rightarrow> v)"

text \<open>
  The dictionary that \<^verbatim>\<open>detect_usb_devices\<close> builds for a matching partition, with
  its keys \<^verbatim>\<open>device_path\<close>, \<^verbatim>\<open>mount_path\<close> and \<^verbatim>\<open>label\<close>.
\<close>

record usb_descriptor =
  usb_device_path :: string
  usb_mount_path :: string
  usb_label :: string

definition GARMIN_USB_VENDOR_ID :: nat where
  "GARMIN_USB_VENDOR_ID = 0x091E"

definition GARMIN_MOUNTPOINT :: string where
  "GARMIN_MOUNTPOINT = ''/mnt/garmin''"

text \<open>
  The loop of \<^verbatim>\<open>detect_usb_devices\<close> over the enumerated partitions, with the list
  \<^verbatim>\<open>garmin_devices\<close> as accumulator.
\<close>

fun detect_loop :: "udev_device list \<Rightarrow> usb_descriptor list \<Rightarrow> usb_descriptor list" where
  "detect_loop [] garmin_devices = garmin_devices"
| "detect_loop (device # rest) garmin_devices =
     (if device_get device ''ID_VENDOR_ID'' [] = drop 2 (py_hex GARMIN_USB_VENDOR_ID)
      then detect_loop rest (garmin_devices @
             [\<lparr>usb_device_path = device_node device,
               usb_mount_path = GARMIN_MOUNTPOINT,
               usb_label = device_get device ''ID_FS_LABEL'' ''Garmin Device''\<rparr>])
      else detect_loop rest garmin_devices)"

text \<open>
  \<^verbatim>\<open>detect_usb_devices\<close>, over the partitions that
  \<^verbatim>\<open>context.list_devices(subsystem='block', DEVTYPE='partition')\<close> enumerates.
\<close>

definition detect_usb_devices :: "udev_device list \<Rightarrow> usb_descriptor list" where
  "detect_usb_devices partitions = detect_loop partitions []"

section \<open>Effects\<close>

text \<open>
  The program is a set of blocking calls into the operating system: the file system,
  the mount wrapper, the system bus and the clock. Their behaviour is a parameter of
  the model (an environment over a system state \<open>'s\<close> that each call may change and
  that may answer with a Python exception). A world is the system state, the trace of
  the calls made so far, and the lines printed on standard output.

  An exception is given by the name of its class and its text (\<^verbatim>\<open>str(e)\<close>).
\<close>

datatype py_exception = PyExc (exc_class: string) (exc_str: string)

text \<open>
  The built-in classes that are not below \<^verbatim>\<open>Exception\<close>: the root of the hierarchy
  and the classes that leave the interpreter or a generator. Every other class is below
  \<^verbatim>\<open>Exception\<close>; those are the errors, and the ones an \<^verbatim>\<open>except Exception\<close>
  clause catches.
\<close>

definition not_below_Exception :: "string list" where
  "not_below_Exception =
     [''BaseException'', ''BaseExceptionGroup'', ''GeneratorExit'', ''KeyboardInterrupt'',
      ''SystemExit'']"

definition below_Exception :: "py_exception \<Rightarrow> bool" where
  "below_Exception e = (exc_class e \<notin> set not_below_Exception)"

datatype icon = Information | Warning

datatype event =
    Makedirs string
  | Mount string string
  | Walk string
  | SystemBus
  | GetObject string string
  | GetManagedObjects
  | StartDiscovery string
  | Sleep int
  | StopDiscovery string
  | PairCall string
  | MessageBox icon string string

record 's world =
  sys :: 's
  trace :: "event list"
  stdout :: "string list"

type_synonym ('s, 'a) io = "'s world \<Rightarrow> (py_exception + 'a) \<times> 's world"

definition ret :: "'a \<Rightarrow> ('s, 'a) io" where
  "ret x w = (Inr x, w)"

definition raise :: "py_exception \<Rightarrow> ('s, 'a) io" where
  "raise e w = (Inl e, w)"

text \<open>Sequencing: an exception of the first statement skips the rest.\<close>

definition seq :: "('s, 'a) io \<Rightarrow> ('a \<Rightarrow> ('s, 'b) io) \<Rightarrow> ('s, 'b) io" where
  "seq m f w = (case m w of (Inl e, w') \<Rightarrow> (Inl e, w') | (Inr x, w') \<Rightarrow> f x w')"

text \<open>
  \<^verbatim>\<open>try: body  except Exception as e: handler\<close>. An exception of the body that is
  not below \<^verbatim>\<open>Exception\<close> passes through the statement.
\<close>

definition try_except :: "('s, 'a) io \<Rightarrow> (py_exception \<Rightarrow> ('s, 'a) io) \<Rightarrow> ('s, 'a) io" where
  "try_except body handler w =
     (case body w of
        (Inl e, w') \<Rightarrow> if below_Exception e then handler e w' else (Inl e, w')
      | (Inr x, w') \<Rightarrow> (Inr x, w'))"

text \<open>A call into the system: it is recorded in the trace whether it returns or raises.\<close>

definition call :: "event \<Rightarrow> ('s \<Rightarrow> (py_exception + 'a) \<times> 's) \<Rightarrow> ('s, 'a) io" where
  "call ev f w =
     (case f (sys w) of (r, s') \<Rightarrow> (r, w\<lparr>sys := s', trace := trace w @ [ev]\<rparr>))"

definition print :: "string \<Rightarrow> ('s, unit) io" where
  "print line w = (Inr (), w\<lparr>stdout := stdout w @ [line]\<rparr>)"

type_synonym walk_entry = "string \<times> string list \<times> string list"

type_synonym dbus_props = "string \<rightharpoonup> string"

type_synonym dbus_objects = "(string \<times> (string \<rightharpoonup> dbus_props)) list"

record 's env =
  env_makedirs :: "string \<Rightarrow> 's \<Rightarrow> (py_exception + unit) \<times> 's"
  env_mount :: "string \<Rightarrow> string \<Rightarrow> 's \<Rightarrow> (py_exception + unit) \<times> 's"
  env_walk :: "string \<Rightarrow> 's \<Rightarrow> walk_entry list"
  env_system_bus :: "'s \<Rightarrow> (py_exception + unit) \<times> 's"
  env_get_object :: "string \<Rightarrow> string \<Rightarrow> 's \<Rightarrow> (py_exception + unit) \<times> 's"
  env_get_managed_objects :: "'s \<Rightarrow> (py_exception + dbus_objects) \<times> 's"
  env_start_discovery :: "string \<Rightarrow> 's \<Rightarrow> (py_exception + unit) \<times> 's"
  env_stop_discovery :: "string \<Rightarrow> 's \<Rightarrow> (py_exception + unit) \<times> 's"
  env_pair :: "string \<Rightarrow> 's \<Rightarrow> (py_exception + unit) \<times> 's"
  env_elapse :: "int \<Rightarrow> 's \<Rightarrow> 's"

text \<open>
  \<^verbatim>\<open>os.makedirs(mount_point, exist_ok=True)\<close>, \<^verbatim>\<open>mount.mount(device_path, mount_point)\<close>.
\<close>

definition os_makedirs :: "'s env \<Rightarrow> string \<Rightarrow> ('s, unit) io" where
  "os_makedirs env path = call (Makedirs path) (env_makedirs env path)"

definition mount_mount :: "'s env \<Rightarrow> string \<Rightarrow> string \<Rightarrow> ('s, unit) io" where
  "mount_mount env device_path mount_point =
     call (Mount device_path mount_point) (env_mount env device_path mount_point)"

text \<open>
  \<^verbatim>\<open>os.walk(path)\<close> with its default \<^verbatim>\<open>onerror=None\<close>: listing errors are skipped, so
  the walk yields its triples (none for a missing directory) and does not raise.
\<close>

definition os_walk :: "'s env \<Rightarrow> string \<Rightarrow> ('s, walk_entry list) io" where
  "os_walk env path = call (Walk path) (\<lambda>s. (Inr (env_walk env path s), s))"

text \<open>\<^verbatim>\<open>time.sleep(duration)\<close>: a negative duration raises \<^verbatim>\<open>ValueError\<close>.\<close>

definition time_sleep :: "'s env \<Rightarrow> int \<Rightarrow> ('s, unit) io" where
  "time_sleep env duration =
     (if duration < 0 then raise (PyExc ''ValueError'' ''sleep length must be non-negative'')
      else call (Sleep duration) (\<lambda>s. (Inr (), env_elapse env duration s)))"

definition QMessageBox :: "icon \<Rightarrow> string \<Rightarrow> string \<Rightarrow> ('s, unit) io" where
  "QMessageBox ic title text w = (Inr (), w\<lparr>trace := trace w @ [MessageBox ic title text]\<rparr>)"

subsection \<open>Mounting\<close>

definition mount_device :: "'s env \<Rightarrow> string \<Rightarrow> string \<Rightarrow> ('s, bool) io" where
  "mount_device env device_path mount_point =
     try_except
       (seq (os_makedirs env mount_point) (\<lambda>_.
        seq (mount_mount env device_path mount_point) (\<lambda>_.
        ret True)))
       (\<lambda>e. seq (print (''Mount error: '' @ exc_str e)) (\<lambda>_. ret False))"

subsection \<open>File extraction\<close>

text \<open>
  The loop of \<^verbatim>\<open>extract_fit_files\<close> over the triples of the walk, with the list
  \<^verbatim>\<open>fit_files\<close> as accumulator.
\<close>

fun extract_loop :: "walk_entry list \<Rightarrow> string list \<Rightarrow> string list" where
  "extract_loop [] fit_files = fit_files"
| "extract_loop ((root, dirs, files) # rest) fit_files =
     extract_loop rest
       (fit_files @ map (os_path_join root) (filter (\<lambda>f. endswith (lower f) ''.fit'') files))"

definition extract_fit_files :: "'s env \<Rightarrow> string \<Rightarrow> ('s, string list) io" where
  "extract_fit_files env mount_point =
     seq (os_walk env mount_point) (\<lambda>entries. ret (extract_loop entries []))"

subsection \<open>The handler that mounts the selected device\<close>

text \<open>
  \<^verbatim>\<open>GarminConnectionApp.mount_usb_device\<close>, given the text of the selected list item.
\<close>

definition mount_usb_device :: "'s env \<Rightarrow> string \<Rightarrow> ('s, unit) io" where
  "mount_usb_device env device_info =
     (let device_path = split_head '' - '' device_info;
          mount_point = GARMIN_MOUNTPOINT
      in seq (mount_device env device_path mount_point) (\<lambda>mounted.
           if mounted
           then seq (extract_fit_files env mount_point) (\<lambda>fit_files.
                  if fit_files \<noteq> []
                  then QMessageBox Information ''USB Device Mounted''
                         (''Found '' @ py_str_nat (length fit_files) @ '' FIT files'')
                  else QMessageBox Warning ''No FIT Files'' ''No FIT files found on device'')
           else ret ()))"

section \<open>Bluetooth pairing manager\<close>

text \<open>
  The manager keeps the bus handle, the path of the adapter it resolved and a proxy of
  the adapter object at that path; the path is the only data among them.
\<close>

record bt_manager =
  adapter_path :: string

text \<open>
  The dictionary that \<^verbatim>\<open>discover_garmin_devices\<close> builds for a device, with its keys
  \<^verbatim>\<open>address\<close> and \<^verbatim>\<open>name\<close>.
\<close>

record bt_descriptor =
  bt_address :: string
  bt_name :: string

definition props_get :: "dbus_props \<Rightarrow> string \<Rightarrow> string \<Rightarrow> string" where
  "props_get device key dflt = (case device key of None \<Rightarrow> dflt | Some v \<Rightarrow> v)"

definition bus_get_object :: "'s env \<Rightarrow> string \<Rightarrow> string \<Rightarrow> ('s, unit) io" where
  "bus_get_object env bus_name path =
     call (GetObject bus_name path) (env_get_object env bus_name path)"

text \<open>
  The two statements that fetch the managed objects: a proxy of the root object, then
  \<^verbatim>\<open>GetManagedObjects\<close> on it.
\<close>

definition managed_objects :: "'s env \<Rightarrow> ('s, dbus_objects) io" where
  "managed_objects env =
     seq (bus_get_object env ''org.bluez'' ''/'') (\<lambda>_.
     call GetManagedObjects (env_get_managed_objects env))"

text \<open>The loop of \<^verbatim>\<open>_get_bluetooth_adapter\<close>, and the \<^verbatim>\<open>raise\<close> after it.\<close>

fun adapter_loop :: "dbus_objects \<Rightarrow> ('s, string) io" where
  "adapter_loop [] = raise (PyExc ''Exception'' ''No Bluetooth adapter found'')"
| "adapter_loop ((path, interfaces) # rest) =
     (if interfaces ''org.bluez.Adapter1'' \<noteq> None then ret path else adapter_loop rest)"

definition get_bluetooth_adapter :: "'s env \<Rightarrow> ('s, string) io" where
  "get_bluetooth_adapter env = seq (managed_objects env) adapter_loop"

text \<open>\<^verbatim>\<open>BluetoothPairingManager.__init__\<close>.\<close>

definition bt_manager_init :: "'s env \<Rightarrow> ('s, bt_manager) io" where
  "bt_manager_init env =
     seq (call SystemBus (env_system_bus env)) (\<lambda>_.
     seq (get_bluetooth_adapter env) (\<lambda>path.
     seq (bus_get_object env ''org.bluez'' path) (\<lambda>_.
     ret \<lparr>adapter_path = path\<rparr>)))"

text \<open>
  The loop of \<^verbatim>\<open>discover_garmin_devices\<close> over the managed objects, with the list
  \<^verbatim>\<open>garmin_devices\<close> as accumulator.
\<close>

fun discover_loop :: "dbus_objects \<Rightarrow> bt_descriptor list \<Rightarrow> bt_descriptor list" where
  "discover_loop [] garmin_devices = garmin_devices"
| "discover_loop ((path, interfaces) # rest) garmin_devices =
     (case interfaces ''org.bluez.Device1'' of
        None \<Rightarrow> discover_loop rest garmin_devices
      | Some device \<Rightarrow>
          if py_in ''Garmin'' (props_get device ''Name'' [])
          then discover_loop rest (garmin_devices @
                 [\<lparr>bt_address = props_get device ''Address'' [],
                   bt_name = props_get device ''Name'' []\<rparr>])
          else discover_loop rest garmin_devices)"

text \<open>The body of the \<^verbatim>\<open>try\<close> in \<^verbatim>\<open>discover_garmin_devices\<close>.\<close>

definition discover_body :: "bt_manager \<Rightarrow> 's env \<Rightarrow> int \<Rightarrow> ('s, bt_descriptor list) io" where
  "discover_body self env duration =
     seq (call (StartDiscovery (adapter_path self)) (env_start_discovery env (adapter_path self))) (\<lambda>_.
     seq (time_sleep env duration) (\<lambda>_.
     seq (call (StopDiscovery (adapter_path self)) (env_stop_discovery env (adapter_path self))) (\<lambda>_.
     seq (managed_objects env) (\<lambda>objects.
     ret (discover_loop objects [])))))"

definition discover_garmin_devices :: "bt_manager \<Rightarrow> 's env \<Rightarrow> int \<Rightarrow> ('s, bt_descriptor list) io" where
  "discover_garmin_devices self env duration =
     try_except (discover_body self env duration)
       (\<lambda>e. seq (print (''Bluetooth discovery error: '' @ exc_str e)) (\<lambda>_. ret []))"

text \<open>The bus path that \<^verbatim>\<open>pair_device\<close> builds from the address.\<close>

definition pair_device_path :: "string \<Rightarrow> string" where
  "pair_device_path device_address =
     ''/org/bluez/hci0/dev_'' @ replace_char (CHR '':'') (CHR ''_'') device_address"

definition pair_device :: "bt_manager \<Rightarrow> 's env \<Rightarrow> string \<Rightarrow> ('s, bool) io" where
  "pair_device self env device_address =
     try_except
       (let device_path = pair_device_path device_address
        in seq (bus_get_object env ''org.bluez'' device_path) (\<lambda>_.
           seq (call (PairCall device_path) (env_pair env device_path)) (\<lambda>_.
           ret True)))
       (\<lambda>e. seq (print (''Pairing error: '' @ exc_str e)) (\<lambda>_. ret False))"

section \<open>The application\<close>

text \<open>
  \<^verbatim>\<open>GarminConnectionApp.__init__\<close> builds the Bluetooth manager outside any
  \<^verbatim>\<open>try\<close>; the widget calls around it are not modelled.
\<close>

definition app_init :: "'s env \<Rightarrow> ('s, bt_manager) io" where
  "app_init env = seq (bt_manager_init env) (\<lambda>bluetooth_manager. ret bluetooth_manager)"

section \<open>Directory trees\<close>

text \<open>
  A directory tree, and the triples \<^verbatim>\<open>os.walk\<close> yields for it top-down: the
  directory's path, the names of its subdirectories, the names of its other entries;
  then the same for each subdirectory in turn.
\<close>

datatype fs_node = File string | Dir string "fs_node list"

fun dirnames :: "fs_node list \<Rightarrow> string list" where
  "dirnames [] = []"
| "dirnames (File f # es) = dirnames es"
| "dirnames (Dir d sub # es) = d # dirnames es"

fun filenames :: "fs_node list \<Rightarrow> string list" where
  "filenames [] = []"
| "filenames (File f # es) = f # filenames es"
| "filenames (Dir d sub # es) = filenames es"

fun walk_tree :: "string \<Rightarrow> fs_node list \<Rightarrow> walk_entry list"
  and walk_subdirs :: "string \<Rightarrow> fs_node list \<Rightarrow> walk_entry list" where
  "walk_tree root es = (root, dirnames es, filenames es) # walk_subdirs root es"
| "walk_subdirs root [] = []"
| "walk_subdirs root (File f # es) = walk_subdirs root es"
| "walk_subdirs root (Dir d sub # es) = walk_tree (os_path_join root d) sub @ walk_subdirs root es"

section \<open>Notions of the specification\<close>

text \<open>
  The extension of a file name: the part from its last dot on, empty when the name has
  no dot. A name whose only dot is its first character, such as \<^verbatim>\<open>.fit\<close>, is its
  own extension.
\<close>

definition extension :: "string \<Rightarrow> string" where
  "extension name =
     (if CHR ''.'' \<in> set name
      then CHR ''.'' # rev (takeWhile (\<lambda>c. c \<noteq> CHR ''.'') (rev name))
      else [])"

text \<open>
  The devices among the managed objects whose advertised name contains the token
  \<^verbatim>\<open>Garmin\<close>, each with its address and name, in the order of the enumeration.
\<close>

definition garmin_named :: "dbus_objects \<Rightarrow> bt_descriptor list" where
  "garmin_named objects =
     concat (map (\<lambda>(path, interfaces).
       case interfaces ''org.bluez.Device1'' of
         None \<Rightarrow> []
       | Some device \<Rightarrow>
           if py_in ''Garmin'' (props_get device ''Name'' [])
           then [\<lparr>bt_address = props_get device ''Address'' [],
                  bt_name = props_get device ''Name'' []\<rparr>]
           else []) objects)"

text \<open>The reason codes of the specification's error taxonomy.\<close>

definition error_taxonomy :: "string list" where
  "error_taxonomy =
     [''NoAdapter'', ''AlreadyConnecting'', ''NotConnected'', ''NotMounted'',
      ''PermissionDenied'', ''DeviceBusy'', ''SubsystemUnavailable'', ''Timeout'',
      ''Cancelled'', ''Unknown'']"

text \<open>The attempts of a run: the mount calls, or the pairing calls, in its trace.\<close>

fun is_mount :: "event \<Rightarrow> bool" where
  "is_mount (Mount device_path mount_point) = True"
| "is_mount ev = False"

fun is_pair :: "event \<Rightarrow> bool" where
  "is_pair (PairCall device_path) = True"
| "is_pair ev = False"

definition mount_attempts :: "'s world \<Rightarrow> nat" where
  "mount_attempts w = length (filter is_mount (trace w))"

definition pair_attempts :: "'s world \<Rightarrow> nat" where
  "pair_attempts w = length (filter is_pair (trace w))"

section \<open>Sample environments\<close>

text \<open>
  A system in which every call succeeds: the bus manages the given objects and the
  walk of a path yields the given tree. Its state counts the mount calls made.
\<close>

definition calm_env :: "dbus_objects \<Rightarrow> fs_node list \<Rightarrow> nat env" where
  "calm_env objects tree =
     \<lparr>env_makedirs = (\<lambda>path n. (Inr (), n)),
      env_mount = (\<lambda>device_path mount_point n. (Inr (), Suc n)),
      env_walk = (\<lambda>path n. walk_tree path tree),
      env_system_bus = (\<lambda>n. (Inr (), n)),
      env_get_object = (\<lambda>bus_name path n. (Inr (), n)),
      env_get_managed_objects = (\<lambda>n. (Inr objects, n)),
      env_start_discovery = (\<lambda>path n. (Inr (), n)),
      env_stop_discovery = (\<lambda>path n. (Inr (), n)),
      env_pair = (\<lambda>path n. (Inr (), n)),
      env_elapse = (\<lambda>duration n. n)\<rparr>"

text \<open>A mount that finds the device busy on its first two calls and succeeds on the third.\<close>

definition busy_twice_env :: "nat env" where
  "busy_twice_env =
     (calm_env [] [])\<lparr>env_mount := (\<lambda>device_path mount_point n.
        (if n < 2 then Inl (PyExc ''OSError'' ''[Errno 16] Device or resource busy'')
         else Inr (), Suc n))\<rparr>"

text \<open>A mount that is refused for lack of permission.\<close>

definition denied_env :: "nat env" where
  "denied_env =
     (calm_env [] [])\<lparr>env_mount := (\<lambda>device_path mount_point n.
        (Inl (PyExc ''PermissionError'' ''[Errno 13] Permission denied''), Suc n))\<rparr>"

text \<open>A bus on which stopping the discovery fails.\<close>

definition stop_fails_env :: "dbus_objects \<Rightarrow> nat env" where
  "stop_fails_env objects =
     (calm_env objects [])\<lparr>env_stop_discovery := (\<lambda>path n.
        (Inl (PyExc ''DBusException'' ''org.bluez.Error.Failed''), n))\<rparr>"

definition w0 :: "nat world" where
  "w0 = \<lparr>sys = 0, trace = [], stdout = []\<rparr>"

text \<open>Two enumerated partitions, the first with the given vendor id and no label.\<close>

definition two_partitions :: "string \<Rightarrow> udev_device list" where
  "two_partitions vendor_id =
     [\<lparr>device_node = ''/dev/sdb1'', properties = [''ID_VENDOR_ID'' \<mapsto> vendor_id]\<rparr>,
      \<lparr>device_node = ''/dev/sda1'',
       properties = [''ID_VENDOR_ID'' \<mapsto> ''0781'', ''ID_FS_LABEL'' \<mapsto> ''DATA'']\<rparr>]"

text \<open>A watch and a headset among the managed objects, next to the adapter.\<close>

definition sample_objects :: dbus_objects where
  "sample_objects =
     [(''/org/bluez/hci0'', [''org.bluez.Adapter1'' \<mapsto> [''Address'' \<mapsto> ''00:11:22:33:44:55'']]),
      (''/org/bluez/hci0/dev_AA_BB_CC_DD_EE_FF'',
         [''org.bluez.Device1'' \<mapsto>
            [''Address'' \<mapsto> ''AA:BB:CC:DD:EE:FF'', ''Name'' \<mapsto> ''Garmin Edge 530'']]),
      (''/org/bluez/hci0/dev_11_22_33_44_55_66'',
         [''org.bluez.Device1'' \<mapsto>
            [''Address'' \<mapsto> ''11:22:33:44:55:66'', ''Name'' \<mapsto> ''Headset'']])]"

text \<open>A file system on which the mount directory cannot be created.\<close>

definition mkdir_fails_env :: "nat env" where
  "mkdir_fails_env =
     (calm_env [] [])\<lparr>env_makedirs := (\<lambda>path n.
        (Inl (PyExc ''OSError'' ''[Errno 30] Read-only file system''), n))\<rparr>"

text \<open>A device that rejects the pairing.\<close>

definition pair_rejected_env :: "nat env" where
  "pair_rejected_env =
     (calm_env [] [])\<lparr>env_pair := (\<lambda>path n.
        (Inl (PyExc ''DBusException'' ''org.bluez.Error.AuthenticationRejected''), n))\<rparr>"

text \<open>A mount call during which the user interrupts the program.\<close>

definition interrupted_env :: "nat env" where
  "interrupted_env =
     (calm_env [] [])\<lparr>env_mount := (\<lambda>device_path mount_point n.
        (Inl (PyExc ''KeyboardInterrupt'' []), Suc n))\<rparr>"

text \<open>Buses on which the discovery cannot start, no object is handed out, or the
  enumeration of the managed objects fails.\<close>

definition start_fails_env :: "nat env" where
  "start_fails_env =
     (calm_env sample_objects [])\<lparr>env_start_discovery := (\<lambda>path n.
        (Inl (PyExc ''DBusException'' ''org.bluez.Error.NotReady''), n))\<rparr>"

definition no_object_env :: "nat env" where
  "no_object_env =
     (calm_env sample_objects [])\<lparr>env_get_object := (\<lambda>bus_name path n.
        (Inl (PyExc ''DBusException'' ''org.freedesktop.DBus.Error.ServiceUnknown''), n))\<rparr>"

definition enumeration_fails_env :: "nat env" where
  "enumeration_fails_env =
     (calm_env sample_objects [])\<lparr>env_get_managed_objects := (\<lambda>n.
        (Inl (PyExc ''DBusException'' ''org.freedesktop.DBus.Error.NoReply''), n))\<rparr>"

section \<open>Mounting: one attempt, errors caught\<close>

lemmas io_defs = ret_def raise_def seq_def try_except_def call_def print_def

lemmas exc_defs = below_Exception_def not_below_Exception_def

lemma mount_device_ok:
  assumes "env_makedirs env mp (sys w) = (Inr (), s1)"
    and "env_mount env dp mp s1 = (Inr (), s2)"
  shows "mount_device env dp mp w =
           (Inr True, w\<lparr>sys := s2, trace := trace w @ [Makedirs mp, Mount dp mp]\<rparr>)"
  using assms by (simp add: mount_device_def os_makedirs_def mount_mount_def io_defs)

lemma mount_device_mount_raises:
  assumes "env_makedirs env mp (sys w) = (Inr (), s1)"
    and "env_mount env dp mp s1 = (Inl e, s2)"
    and "below_Exception e"
  shows "mount_device env dp mp w =
           (Inr False, w\<lparr>sys := s2, trace := trace w @ [Makedirs mp, Mount dp mp],
                         stdout := stdout w @ [''Mount error: '' @ exc_str e]\<rparr>)"
  using assms by (simp add: mount_device_def os_makedirs_def mount_mount_def io_defs)

lemma mount_device_makedirs_raises:
  assumes "env_makedirs env mp (sys w) = (Inl e, s1)"
    and "below_Exception e"
  shows "mount_device env dp mp w =
           (Inr False, w\<lparr>sys := s1, trace := trace w @ [Makedirs mp],
                         stdout := stdout w @ [''Mount error: '' @ exc_str e]\<rparr>)"
  using assms by (simp add: mount_device_def os_makedirs_def mount_mount_def io_defs)

lemma mount_device_mount_escapes:
  assumes "env_makedirs env mp (sys w) = (Inr (), s1)"
    and "env_mount env dp mp s1 = (Inl e, s2)"
    and "\<not> below_Exception e"
  shows "mount_device env dp mp w =
           (Inl e, w\<lparr>sys := s2, trace := trace w @ [Makedirs mp, Mount dp mp]\<rparr>)"
  using assms by (simp add: mount_device_def os_makedirs_def mount_mount_def io_defs)

lemma mount_device_makedirs_escapes:
  assumes "env_makedirs env mp (sys w) = (Inl e, s1)"
    and "\<not> below_Exception e"
  shows "mount_device env dp mp w =
           (Inl e, w\<lparr>sys := s1, trace := trace w @ [Makedirs mp]\<rparr>)"
  using assms by (simp add: mount_device_def os_makedirs_def mount_mount_def io_defs)

text \<open>The three ways two calls in a row can go.\<close>

lemma two_calls_cases:
  fixes f g :: "'s \<Rightarrow> (py_exception + unit) \<times> 's"
  obtains (ok) s1 s2 where "f s = (Inr (), s1)" "g s1 = (Inr (), s2)"
  | (second_raises) s1 s2 e where "f s = (Inr (), s1)" "g s1 = (Inl e, s2)"
  | (first_raises) s1 e where "f s = (Inl e, s1)"
proof (cases "f s")
  case (Pair r s1)
  show ?thesis
  proof (cases r)
    case (Inl e)
    with Pair show ?thesis using first_raises by simp
  next
    case (Inr u)
    obtain r2 s2 where m: "g s1 = (r2, s2)"
      by (cases "g s1")
    show ?thesis
    proof (cases r2)
      case (Inl e)
      with Pair \<open>r = Inr u\<close> m show ?thesis using second_raises by simp
    next
      case (Inr u2)
      with Pair \<open>r = Inr u\<close> m show ?thesis using ok by simp
    qed
  qed
qed

text \<open>
  The result of \<^verbatim>\<open>mount_device\<close> is \<open>True\<close> exactly when both calls returned, and
  every run makes at most one mount call.
\<close>

lemma mount_device_True_iff:
  "fst (mount_device env dp mp w) = Inr True \<longleftrightarrow>
     (\<exists>s1 s2. env_makedirs env mp (sys w) = (Inr (), s1) \<and>
              env_mount env dp mp s1 = (Inr (), s2))"
proof (cases rule: two_calls_cases [of "env_makedirs env mp" "sys w" "env_mount env dp mp"])
  case ok
  then show ?thesis by (simp add: mount_device_ok)
next
  case (second_raises s1 s2 e)
  then show ?thesis
    by (cases "below_Exception e")
       (simp_all add: mount_device_mount_raises mount_device_mount_escapes)
next
  case (first_raises s1 e)
  then show ?thesis
    by (cases "below_Exception e")
       (simp_all add: mount_device_makedirs_raises mount_device_makedirs_escapes)
qed

lemma mount_device_attempts:
  "mount_attempts (snd (mount_device env dp mp w)) =
     mount_attempts w +
       (case fst (env_makedirs env mp (sys w)) of Inl e \<Rightarrow> 0 | Inr u \<Rightarrow> 1)"
proof (cases rule: two_calls_cases [of "env_makedirs env mp" "sys w" "env_mount env dp mp"])
  case ok
  then show ?thesis by (simp add: mount_device_ok mount_attempts_def)
next
  case (second_raises s1 s2 e)
  then show ?thesis
    by (cases "below_Exception e")
       (simp_all add: mount_device_mount_raises mount_device_mount_escapes mount_attempts_def)
next
  case (first_raises s1 e)
  then show ?thesis
    by (cases "below_Exception e")
       (simp_all add: mount_device_makedirs_raises mount_device_makedirs_escapes
          mount_attempts_def)
qed

text \<open>
  C9, as stated, fails: an interrupt raised during the mount call is not below
  \<^verbatim>\<open>Exception\<close>, so the handler does not catch it and \<^verbatim>\<open>mount_device\<close> passes it on
  to its caller.
\<close>

theorem mount_device_passes_interrupt:
  "env_mount interrupted_env ''/dev/sdb1'' ''/mnt/garmin'' 0 =
     (Inl (PyExc ''KeyboardInterrupt'' []), 1) \<and>
   mount_device interrupted_env ''/dev/sdb1'' ''/mnt/garmin'' w0 =
     (Inl (PyExc ''KeyboardInterrupt'' []),
      \<lparr>sys = 1, trace = [Makedirs ''/mnt/garmin'', Mount ''/dev/sdb1'' ''/mnt/garmin''],
       stdout = []\<rparr>)"
  by (simp add: mount_device_def os_makedirs_def mount_mount_def io_defs exc_defs
      interrupted_env_def calm_env_def w0_def)

text \<open>
  C9, amended. \<^verbatim>\<open>mount_device\<close> catches every exception below \<^verbatim>\<open>Exception\<close> that
  directory creation or the mount call raises: when the two calls raise no other
  exception it returns a Boolean, which is \<open>True\<close> exactly when directory creation
  returned and the mount call after it returned too. An exception that is not below
  \<^verbatim>\<open>Exception\<close> is passed on to the caller.
\<close>

theorem mount_device_catches_errors:
  "((\<forall>e s1. env_makedirs env mp (sys w) = (Inl e, s1) \<longrightarrow> below_Exception e) \<longrightarrow>
    (\<forall>e s1 s2. env_makedirs env mp (sys w) = (Inr (), s1) \<longrightarrow>
       env_mount env dp mp s1 = (Inl e, s2) \<longrightarrow> below_Exception e) \<longrightarrow>
    (\<exists>b w'. mount_device env dp mp w = (Inr b, w') \<and>
       (b \<longleftrightarrow> (\<exists>s1 s2. env_makedirs env mp (sys w) = (Inr (), s1) \<and>
                         env_mount env dp mp s1 = (Inr (), s2))))) \<and>
   (env_makedirs env mp (sys w) = (Inl e, s1) \<longrightarrow> \<not> below_Exception e \<longrightarrow>
      fst (mount_device env dp mp w) = Inl e) \<and>
   (env_makedirs env mp (sys w) = (Inr (), s1) \<longrightarrow> env_mount env dp mp s1 = (Inl e, s2) \<longrightarrow>
    \<not> below_Exception e \<longrightarrow>
      fst (mount_device env dp mp w) = Inl e)"
proof (intro conjI impI)
  assume a: "\<forall>e s1. env_makedirs env mp (sys w) = (Inl e, s1) \<longrightarrow> below_Exception e"
    and b: "\<forall>e s1 s2. env_makedirs env mp (sys w) = (Inr (), s1) \<longrightarrow>
       env_mount env dp mp s1 = (Inl e, s2) \<longrightarrow> below_Exception e"
  show "\<exists>b w'. mount_device env dp mp w = (Inr b, w') \<and>
       (b \<longleftrightarrow> (\<exists>s1 s2. env_makedirs env mp (sys w) = (Inr (), s1) \<and>
                         env_mount env dp mp s1 = (Inr (), s2)))"
  proof (cases rule: two_calls_cases [of "env_makedirs env mp" "sys w" "env_mount env dp mp"])
    case ok
    then show ?thesis by (auto simp add: mount_device_ok)
  next
    case (second_raises s1 s2 e)
    with b have "below_Exception e" by blast
    with second_raises show ?thesis by (auto simp add: mount_device_mount_raises)
  next
    case (first_raises s1 e)
    with a have "below_Exception e" by blast
    with first_raises show ?thesis by (auto simp add: mount_device_makedirs_raises)
  qed
next
  assume "env_makedirs env mp (sys w) = (Inl e, s1)" "\<not> below_Exception e"
  then show "fst (mount_device env dp mp w) = Inl e"
    by (simp add: mount_device_makedirs_escapes)
next
  assume "env_makedirs env mp (sys w) = (Inr (), s1)" "env_mount env dp mp s1 = (Inl e, s2)"
    "\<not> below_Exception e"
  then show "fst (mount_device env dp mp w) = Inl e"
    by (simp add: mount_device_mount_escapes)
qed

theorem mount_device_catches_errors_witness:
  "mount_device denied_env ''/dev/sdb1'' ''/mnt/garmin'' w0 =
     (Inr False,
      \<lparr>sys = 1, trace = [Makedirs ''/mnt/garmin'', Mount ''/dev/sdb1'' ''/mnt/garmin''],
       stdout = [''Mount error: [Errno 13] Permission denied'']\<rparr>) \<and>
   fst (mount_device interrupted_env ''/dev/sdb1'' ''/mnt/garmin'' w0) =
     Inl (PyExc ''KeyboardInterrupt'' [])"
  using mount_device_catches_errors [where env = denied_env and mp = "''/mnt/garmin''" and w = w0
      and dp = "''/dev/sdb1''"]
    mount_device_catches_errors [where env = interrupted_env and mp = "''/mnt/garmin''" and w = w0
      and dp = "''/dev/sdb1''" and e = "PyExc ''KeyboardInterrupt'' []" and ?s1.0 = 0
      and ?s2.0 = 1]
  by (simp add: mount_device_def os_makedirs_def mount_mount_def io_defs exc_defs
      denied_env_def interrupted_env_def calm_env_def w0_def)

section \<open>Pairing and discovery: the runs\<close>

lemma pair_device_ok:
  assumes "env_get_object env ''org.bluez'' (pair_device_path a) (sys w) = (Inr (), s1)"
    and "env_pair env (pair_device_path a) s1 = (Inr (), s2)"
  shows "pair_device self env a w =
           (Inr True, w\<lparr>sys := s2, trace := trace w @
              [GetObject ''org.bluez'' (pair_device_path a), PairCall (pair_device_path a)]\<rparr>)"
  using assms by (simp add: pair_device_def Let_def bus_get_object_def io_defs)

lemma pair_device_pair_raises:
  assumes "env_get_object env ''org.bluez'' (pair_device_path a) (sys w) = (Inr (), s1)"
    and "env_pair env (pair_device_path a) s1 = (Inl e, s2)"
    and "below_Exception e"
  shows "pair_device self env a w =
           (Inr False, w\<lparr>sys := s2, trace := trace w @
              [GetObject ''org.bluez'' (pair_device_path a), PairCall (pair_device_path a)],
              stdout := stdout w @ [''Pairing error: '' @ exc_str e]\<rparr>)"
  using assms by (simp add: pair_device_def Let_def bus_get_object_def io_defs)

lemma pair_device_get_object_raises:
  assumes "env_get_object env ''org.bluez'' (pair_device_path a) (sys w) = (Inl e, s1)"
    and "below_Exception e"
  shows "pair_device self env a w =
           (Inr False, w\<lparr>sys := s1, trace := trace w @
              [GetObject ''org.bluez'' (pair_device_path a)],
              stdout := stdout w @ [''Pairing error: '' @ exc_str e]\<rparr>)"
  using assms by (simp add: pair_device_def Let_def bus_get_object_def io_defs)

lemma pair_device_pair_escapes:
  assumes "env_get_object env ''org.bluez'' (pair_device_path a) (sys w) = (Inr (), s1)"
    and "env_pair env (pair_device_path a) s1 = (Inl e, s2)"
    and "\<not> below_Exception e"
  shows "pair_device self env a w =
           (Inl e, w\<lparr>sys := s2, trace := trace w @
              [GetObject ''org.bluez'' (pair_device_path a), PairCall (pair_device_path a)]\<rparr>)"
  using assms by (simp add: pair_device_def Let_def bus_get_object_def io_defs)

lemma pair_device_get_object_escapes:
  assumes "env_get_object env ''org.bluez'' (pair_device_path a) (sys w) = (Inl e, s1)"
    and "\<not> below_Exception e"
  shows "pair_device self env a w =
           (Inl e, w\<lparr>sys := s1, trace := trace w @
              [GetObject ''org.bluez'' (pair_device_path a)]\<rparr>)"
  using assms by (simp add: pair_device_def Let_def bus_get_object_def io_defs)

lemmas pair_device_runs = pair_device_ok pair_device_pair_raises pair_device_get_object_raises
  pair_device_pair_escapes pair_device_get_object_escapes

lemma pair_device_True_iff:
  "fst (pair_device self env a w) = Inr True \<longleftrightarrow>
     (\<exists>s1 s2. env_get_object env ''org.bluez'' (pair_device_path a) (sys w) = (Inr (), s1) \<and>
              env_pair env (pair_device_path a) s1 = (Inr (), s2))"
proof (cases rule: two_calls_cases [of "env_get_object env ''org.bluez'' (pair_device_path a)"
      "sys w" "env_pair env (pair_device_path a)"])
  case ok
  then show ?thesis by (simp add: pair_device_ok)
next
  case (second_raises s1 s2 e)
  then show ?thesis
    by (cases "below_Exception e") (simp_all add: pair_device_runs)
next
  case (first_raises s1 e)
  then show ?thesis
    by (cases "below_Exception e") (simp_all add: pair_device_runs)
qed

lemma pair_device_trace:
  "trace (snd (pair_device self env a w)) =
     trace w @ GetObject ''org.bluez'' (pair_device_path a) #
       (case fst (env_get_object env ''org.bluez'' (pair_device_path a) (sys w)) of
          Inl e \<Rightarrow> []
        | Inr u \<Rightarrow> [PairCall (pair_device_path a)])"
proof (cases rule: two_calls_cases [of "env_get_object env ''org.bluez'' (pair_device_path a)"
      "sys w" "env_pair env (pair_device_path a)"])
  case ok
  then show ?thesis by (simp add: pair_device_ok)
next
  case (second_raises s1 s2 e)
  then show ?thesis
    by (cases "below_Exception e") (simp_all add: pair_device_runs)
next
  case (first_raises s1 e)
  then show ?thesis
    by (cases "below_Exception e") (simp_all add: pair_device_runs)
qed

lemma pair_device_attempts:
  "pair_attempts (snd (pair_device self env a w)) =
     pair_attempts w +
       (case fst (env_get_object env ''org.bluez'' (pair_device_path a) (sys w)) of
          Inl e \<Rightarrow> 0
        | Inr u \<Rightarrow> 1)"
  by (cases "fst (env_get_object env ''org.bluez'' (pair_device_path a) (sys w))")
     (simp_all add: pair_attempts_def pair_device_trace)

lemma discover_loop_append: "discover_loop objects acc = acc @ garmin_named objects"
  by (induction objects acc rule: discover_loop.induct)
     (auto simp add: garmin_named_def split: option.splits)

lemmas discover_defs = discover_garmin_devices_def discover_body_def time_sleep_def
  managed_objects_def bus_get_object_def io_defs

lemma discover_ok:
  assumes "env_start_discovery env (adapter_path self) (sys w) = (Inr (), s1)"
    and "0 \<le> d"
    and "env_stop_discovery env (adapter_path self) (env_elapse env d s1) = (Inr (), s2)"
    and "env_get_object env ''org.bluez'' ''/'' s2 = (Inr (), s3)"
    and "env_get_managed_objects env s3 = (Inr objects, s4)"
  shows "discover_garmin_devices self env d w =
           (Inr (garmin_named objects),
            w\<lparr>sys := s4, trace := trace w @
              [StartDiscovery (adapter_path self), Sleep d, StopDiscovery (adapter_path self),
               GetObject ''org.bluez'' ''/'', GetManagedObjects]\<rparr>)"
  using assms by (simp add: discover_defs discover_loop_append)

lemma discover_start_raises:
  assumes "env_start_discovery env (adapter_path self) (sys w) = (Inl e, s1)"
    and "below_Exception e"
  shows "discover_garmin_devices self env d w =
           (Inr [], w\<lparr>sys := s1, trace := trace w @ [StartDiscovery (adapter_path self)],
              stdout := stdout w @ [''Bluetooth discovery error: '' @ exc_str e]\<rparr>)"
  using assms by (simp add: discover_defs)

lemma discover_sleep_raises:
  assumes "env_start_discovery env (adapter_path self) (sys w) = (Inr (), s1)"
    and "d < 0"
  shows "discover_garmin_devices self env d w =
           (Inr [], w\<lparr>sys := s1, trace := trace w @ [StartDiscovery (adapter_path self)],
              stdout := stdout w @
                [''Bluetooth discovery error: sleep length must be non-negative'']\<rparr>)"
  using assms by (simp add: discover_defs exc_defs)

lemma discover_stop_raises:
  assumes "env_start_discovery env (adapter_path self) (sys w) = (Inr (), s1)"
    and "0 \<le> d"
    and "env_stop_discovery env (adapter_path self) (env_elapse env d s1) = (Inl e, s2)"
    and "below_Exception e"
  shows "discover_garmin_devices self env d w =
           (Inr [], w\<lparr>sys := s2, trace := trace w @
              [StartDiscovery (adapter_path self), Sleep d, StopDiscovery (adapter_path self)],
              stdout := stdout w @ [''Bluetooth discovery error: '' @ exc_str e]\<rparr>)"
  using assms by (simp add: discover_defs)

lemma discover_get_object_raises:
  assumes "env_start_discovery env (adapter_path self) (sys w) = (Inr (), s1)"
    and "0 \<le> d"
    and "env_stop_discovery env (adapter_path self) (env_elapse env d s1) = (Inr (), s2)"
    and "env_get_object env ''org.bluez'' ''/'' s2 = (Inl e, s3)"
    and "below_Exception e"
  shows "discover_garmin_devices self env d w =
           (Inr [], w\<lparr>sys := s3, trace := trace w @
              [StartDiscovery (adapter_path self), Sleep d, StopDiscovery (adapter_path self),
               GetObject ''org.bluez'' ''/''],
              stdout := stdout w @ [''Bluetooth discovery error: '' @ exc_str e]\<rparr>)"
  using assms by (simp add: discover_defs)

lemma discover_enumeration_raises:
  assumes "env_start_discovery env (adapter_path self) (sys w) = (Inr (), s1)"
    and "0 \<le> d"
    and "env_stop_discovery env (adapter_path self) (env_elapse env d s1) = (Inr (), s2)"
    and "env_get_object env ''org.bluez'' ''/'' s2 = (Inr (), s3)"
    and "env_get_managed_objects env s3 = (Inl e, s4)"
    and "below_Exception e"
  shows "discover_garmin_devices self env d w =
           (Inr [], w\<lparr>sys := s4, trace := trace w @
              [StartDiscovery (adapter_path self), Sleep d, StopDiscovery (adapter_path self),
               GetObject ''org.bluez'' ''/'', GetManagedObjects],
              stdout := stdout w @ [''Bluetooth discovery error: '' @ exc_str e]\<rparr>)"
  using assms by (simp add: discover_defs)

text \<open>Whatever happens, the calls made are an initial part of the five, in order.\<close>

lemma discover_trace_prefix:
  "\<exists>k. trace (snd (discover_garmin_devices self env d w)) =
     trace w @ take k [StartDiscovery (adapter_path self), Sleep d,
                       StopDiscovery (adapter_path self),
                       GetObject ''org.bluez'' ''/'', GetManagedObjects]"
proof -
  let ?run = "trace (snd (discover_garmin_devices self env d w))"
  let ?all = "[StartDiscovery (adapter_path self), Sleep d, StopDiscovery (adapter_path self),
               GetObject ''org.bluez'' ''/'', GetManagedObjects]"
  obtain r1 s1 where c1: "env_start_discovery env (adapter_path self) (sys w) = (r1, s1)"
    by (cases "env_start_discovery env (adapter_path self) (sys w)")
  obtain r2 s2 where c2: "env_stop_discovery env (adapter_path self) (env_elapse env d s1) = (r2, s2)"
    by (cases "env_stop_discovery env (adapter_path self) (env_elapse env d s1)")
  obtain r3 s3 where c3: "env_get_object env ''org.bluez'' ''/'' s2 = (r3, s3)"
    by (cases "env_get_object env ''org.bluez'' ''/'' s2")
  obtain r4 s4 where c4: "env_get_managed_objects env s3 = (r4, s4)"
    by (cases "env_get_managed_objects env s3")
  show ?thesis
  proof (cases r1)
    case (Inl e)
    with c1 have eq: "?run = trace w @ take 1 ?all" by (simp add: discover_defs)
    show ?thesis by (rule exI [of _ 1]) (rule eq)
  next
    case start: (Inr u1)
    show ?thesis
    proof (cases "d < 0")
      case True
      with c1 start have eq: "?run = trace w @ take 1 ?all" by (simp add: discover_defs)
      show ?thesis by (rule exI [of _ 1]) (rule eq)
    next
      case False
      show ?thesis
      proof (cases r2)
        case (Inl e)
        with c1 c2 start False have eq: "?run = trace w @ take 3 ?all"
          by (simp add: discover_defs)
        show ?thesis by (rule exI [of _ 3]) (rule eq)
      next
        case stop: (Inr u2)
        show ?thesis
        proof (cases r3)
          case (Inl e)
          with c1 c2 c3 start False stop have eq: "?run = trace w @ take 4 ?all"
            by (simp add: discover_defs)
          show ?thesis by (rule exI [of _ 4]) (rule eq)
        next
          case (Inr u3)
          with c1 c2 c3 c4 start False stop have eq: "?run = trace w @ take 5 ?all"
            by (cases r4) (simp_all add: discover_defs)
          show ?thesis by (rule exI [of _ 5]) (rule eq)
        qed
      qed
    qed
  qed
qed

section \<open>Substrings, the adapter loop and the discovered devices\<close>

lemma startswith_iff: "startswith s p \<longleftrightarrow> (\<exists>post. s = p @ post)"
  by (induction s p rule: startswith.induct) auto

lemma py_in_iff: "py_in sub s \<longleftrightarrow> (\<exists>pre post. s = pre @ sub @ post)"
proof (induction s)
  case Nil
  then show ?case by auto
next
  case (Cons c cs)
  show ?case
  proof
    assume "py_in sub (c # cs)"
    then consider "startswith (c # cs) sub" | "py_in sub cs" by auto
    then show "\<exists>pre post. c # cs = pre @ sub @ post"
    proof cases
      case 1
      then obtain post where "c # cs = sub @ post" by (auto simp add: startswith_iff)
      then have "c # cs = [] @ sub @ post" by simp
      then show ?thesis by blast
    next
      case 2
      with Cons.IH obtain pre post where "cs = pre @ sub @ post" by auto
      then have "c # cs = (c # pre) @ sub @ post" by simp
      then show ?thesis by blast
    qed
  next
    assume "\<exists>pre post. c # cs = pre @ sub @ post"
    then obtain pre post where eq: "c # cs = pre @ sub @ post" by auto
    show "py_in sub (c # cs)"
    proof (cases pre)
      case Nil
      with eq have "startswith (c # cs) sub" by (auto simp add: startswith_iff)
      then show ?thesis by simp
    next
      case (Cons p pre')
      with eq have "cs = pre' @ sub @ post" by simp
      with Cons.IH have "py_in sub cs" by blast
      then show ?thesis by simp
    qed
  qed
qed

lemma adapter_loop_none:
  "(\<forall>(path, interfaces) \<in> set objects. interfaces ''org.bluez.Adapter1'' = None) \<Longrightarrow>
     adapter_loop objects w = (Inl (PyExc ''Exception'' ''No Bluetooth adapter found''), w)"
  by (induction objects) (auto simp add: raise_def)

lemma app_init_no_adapter:
  assumes "env_system_bus env (sys w) = (Inr (), s1)"
    and "env_get_object env ''org.bluez'' ''/'' s1 = (Inr (), s2)"
    and "env_get_managed_objects env s2 = (Inr objects, s3)"
    and "\<forall>(path, interfaces) \<in> set objects. interfaces ''org.bluez.Adapter1'' = None"
  shows "app_init env w =
           (Inl (PyExc ''Exception'' ''No Bluetooth adapter found''),
            w\<lparr>sys := s3, trace := trace w @
              [SystemBus, GetObject ''org.bluez'' ''/'', GetManagedObjects]\<rparr>)"
  using assms
  by (simp add: app_init_def bt_manager_init_def get_bluetooth_adapter_def managed_objects_def
      bus_get_object_def seq_def call_def adapter_loop_none)

lemma garmin_named_Nil: "garmin_named [] = []"
  by (simp add: garmin_named_def)

lemma garmin_named_Cons:
  "garmin_named ((path, interfaces) # rest) =
     (case interfaces ''org.bluez.Device1'' of
        None \<Rightarrow> []
      | Some device \<Rightarrow>
          if py_in ''Garmin'' (props_get device ''Name'' [])
          then [\<lparr>bt_address = props_get device ''Address'' [],
                 bt_name = props_get device ''Name'' []\<rparr>]
          else []) @ garmin_named rest"
  by (simp add: garmin_named_def)

lemma garmin_named_member:
  "x \<in> set (garmin_named objects) \<longleftrightarrow>
     (\<exists>path interfaces device. (path, interfaces) \<in> set objects \<and>
        interfaces ''org.bluez.Device1'' = Some device \<and>
        (\<exists>pre post. props_get device ''Name'' [] = pre @ ''Garmin'' @ post) \<and>
        x = \<lparr>bt_address = props_get device ''Address'' [], bt_name = props_get device ''Name'' []\<rparr>)"
  unfolding py_in_iff [symmetric]
proof (induction objects)
  case Nil
  show ?case by (simp add: garmin_named_Nil)
next
  case (Cons obj rest)
  obtain path interfaces where obj: "obj = (path, interfaces)" by (cases obj)
  show ?case
  proof (cases "interfaces ''org.bluez.Device1''")
    case None
    then show ?thesis using Cons.IH obj by (auto simp add: garmin_named_Cons)
  next
    case (Some device)
    then show ?thesis using Cons.IH obj by (auto simp add: garmin_named_Cons)
  qed
qed

section \<open>Mounting: what the caller is told\<close>

text \<open>
  C6, as stated, fails: a mount refused for lack of permission and a mount that finds
  the device busy raise different errors, and \<^verbatim>\<open>mount_device\<close> reports both with the
  same value.
\<close>

theorem mount_failures_alike:
  "fst (env_mount denied_env ''/dev/sdb1'' ''/mnt/garmin'' 0) =
     Inl (PyExc ''PermissionError'' ''[Errno 13] Permission denied'') \<and>
   fst (env_mount busy_twice_env ''/dev/sdb1'' ''/mnt/garmin'' 0) =
     Inl (PyExc ''OSError'' ''[Errno 16] Device or resource busy'') \<and>
   fst (mount_device denied_env ''/dev/sdb1'' ''/mnt/garmin'' w0) =
     fst (mount_device busy_twice_env ''/dev/sdb1'' ''/mnt/garmin'' w0)"
  by (simp add: mount_device_def os_makedirs_def mount_mount_def io_defs exc_defs denied_env_def
      busy_twice_env_def calm_env_def w0_def)

text \<open>
  C6, amended. \<^verbatim>\<open>mount_device\<close> first creates the mount directory, then performs the
  mount. When both return, the result is \<open>True\<close>. When the mount raises an error, or
  directory creation raises one (and then no mount is tried), the result is \<open>False\<close>
  whatever the error; the error's text is only printed after \<^verbatim>\<open>Mount error: \<close>.
  An error is an exception below \<^verbatim>\<open>Exception\<close>.
\<close>

theorem mount_device_steps:
  "(env_makedirs env mp (sys w) = (Inr (), s1) \<longrightarrow> env_mount env dp mp s1 = (Inr (), s2) \<longrightarrow>
      mount_device env dp mp w =
        (Inr True, w\<lparr>sys := s2, trace := trace w @ [Makedirs mp, Mount dp mp]\<rparr>)) \<and>
   (env_makedirs env mp (sys w) = (Inr (), s1) \<longrightarrow> env_mount env dp mp s1 = (Inl e, s2) \<longrightarrow>
    below_Exception e \<longrightarrow>
      mount_device env dp mp w =
        (Inr False, w\<lparr>sys := s2, trace := trace w @ [Makedirs mp, Mount dp mp],
                      stdout := stdout w @ [''Mount error: '' @ exc_str e]\<rparr>)) \<and>
   (env_makedirs env mp (sys w) = (Inl e, s1) \<longrightarrow> below_Exception e \<longrightarrow>
      mount_device env dp mp w =
        (Inr False, w\<lparr>sys := s1, trace := trace w @ [Makedirs mp],
                      stdout := stdout w @ [''Mount error: '' @ exc_str e]\<rparr>))"
  by (simp add: mount_device_ok mount_device_mount_raises mount_device_makedirs_raises)

theorem mount_device_steps_witness:
  "mount_device (calm_env [] []) ''/dev/sdb1'' ''/mnt/garmin'' w0 =
     (Inr True,
      \<lparr>sys = 1, trace = [Makedirs ''/mnt/garmin'', Mount ''/dev/sdb1'' ''/mnt/garmin''],
       stdout = []\<rparr>) \<and>
   mount_device busy_twice_env ''/dev/sdb1'' ''/mnt/garmin'' w0 =
     (Inr False,
      \<lparr>sys = 1, trace = [Makedirs ''/mnt/garmin'', Mount ''/dev/sdb1'' ''/mnt/garmin''],
       stdout = [''Mount error: [Errno 16] Device or resource busy'']\<rparr>) \<and>
   mount_device mkdir_fails_env ''/dev/sdb1'' ''/mnt/garmin'' w0 =
     (Inr False,
      \<lparr>sys = 0, trace = [Makedirs ''/mnt/garmin''],
       stdout = [''Mount error: [Errno 30] Read-only file system'']\<rparr>)"
  using mount_device_steps [of "calm_env [] []" "''/mnt/garmin''" w0 0 "''/dev/sdb1''" 1]
    mount_device_steps [of busy_twice_env "''/mnt/garmin''" w0 0 "''/dev/sdb1''" 1
      "PyExc ''OSError'' ''[Errno 16] Device or resource busy''"]
    mount_device_steps [of mkdir_fails_env "''/mnt/garmin''" w0 0 "''/dev/sdb1''" 0
      "PyExc ''OSError'' ''[Errno 30] Read-only file system''"]
  by (simp add: busy_twice_env_def mkdir_fails_env_def calm_env_def w0_def exc_defs)

text \<open>
  C4, as stated, fails: with a mount that is busy on its first two calls and would
  succeed on the third, \<^verbatim>\<open>mount_device\<close> fails after a single attempt.
\<close>

theorem busy_twice_no_retry:
  "fst (env_mount busy_twice_env ''/dev/sdb1'' ''/mnt/garmin'' 0) =
     Inl (PyExc ''OSError'' ''[Errno 16] Device or resource busy'') \<and>
   fst (env_mount busy_twice_env ''/dev/sdb1'' ''/mnt/garmin'' 1) =
     Inl (PyExc ''OSError'' ''[Errno 16] Device or resource busy'') \<and>
   fst (env_mount busy_twice_env ''/dev/sdb1'' ''/mnt/garmin'' 2) = Inr () \<and>
   fst (mount_device busy_twice_env ''/dev/sdb1'' ''/mnt/garmin'' w0) = Inr False \<and>
   mount_attempts (snd (mount_device busy_twice_env ''/dev/sdb1'' ''/mnt/garmin'' w0)) = 1"
  by (simp add: mount_device_def os_makedirs_def mount_mount_def io_defs exc_defs
      busy_twice_env_def calm_env_def w0_def mount_attempts_def)

text \<open>
  C4, amended. A call of \<^verbatim>\<open>mount_device\<close> makes at most one mount call and a call of
  \<^verbatim>\<open>pair_device\<close> at most one pairing call. When that one call raises an error (an
  exception below \<^verbatim>\<open>Exception\<close>), whatever the error, the result is \<open>False\<close> at once,
  after exactly one attempt. The result is \<open>True\<close> exactly when the step before the
  attempt and the first attempt itself both returned, and then exactly one attempt was
  made.
\<close>

theorem single_attempt:
  "mount_attempts (snd (mount_device env dp mp w)) \<le> mount_attempts w + 1 \<and>
   pair_attempts (snd (pair_device self env a w)) \<le> pair_attempts w + 1 \<and>
   (env_makedirs env mp (sys w) = (Inr (), s1) \<longrightarrow> env_mount env dp mp s1 = (Inl e, s2) \<longrightarrow>
    below_Exception e \<longrightarrow>
      fst (mount_device env dp mp w) = Inr False \<and>
      mount_attempts (snd (mount_device env dp mp w)) = mount_attempts w + 1) \<and>
   (env_get_object env ''org.bluez'' (pair_device_path a) (sys w) = (Inr (), t1) \<longrightarrow>
    env_pair env (pair_device_path a) t1 = (Inl e', t2) \<longrightarrow>
    below_Exception e' \<longrightarrow>
      fst (pair_device self env a w) = Inr False \<and>
      pair_attempts (snd (pair_device self env a w)) = pair_attempts w + 1) \<and>
   (fst (mount_device env dp mp w) = Inr True \<longleftrightarrow>
      (\<exists>s1 s2. env_makedirs env mp (sys w) = (Inr (), s1) \<and>
               env_mount env dp mp s1 = (Inr (), s2))) \<and>
   (fst (mount_device env dp mp w) = Inr True \<longrightarrow>
      mount_attempts (snd (mount_device env dp mp w)) = mount_attempts w + 1) \<and>
   (fst (pair_device self env a w) = Inr True \<longleftrightarrow>
      (\<exists>s1 s2. env_get_object env ''org.bluez'' (pair_device_path a) (sys w) = (Inr (), s1) \<and>
               env_pair env (pair_device_path a) s1 = (Inr (), s2))) \<and>
   (fst (pair_device self env a w) = Inr True \<longrightarrow>
      pair_attempts (snd (pair_device self env a w)) = pair_attempts w + 1)"
proof -
  have m: "mount_attempts (snd (mount_device env dp mp w)) \<le> mount_attempts w + 1"
    by (cases "fst (env_makedirs env mp (sys w))") (simp_all add: mount_device_attempts)
  have p: "pair_attempts (snd (pair_device self env a w)) \<le> pair_attempts w + 1"
    by (cases "fst (env_get_object env ''org.bluez'' (pair_device_path a) (sys w))")
       (simp_all add: pair_device_attempts)
  have mf: "fst (mount_device env dp mp w) = Inr False \<and>
      mount_attempts (snd (mount_device env dp mp w)) = mount_attempts w + 1"
    if "env_makedirs env mp (sys w) = (Inr (), s1)" "env_mount env dp mp s1 = (Inl e, s2)"
      "below_Exception e"
    using mount_device_mount_raises [OF that] by (simp add: mount_attempts_def)
  have pf: "fst (pair_device self env a w) = Inr False \<and>
      pair_attempts (snd (pair_device self env a w)) = pair_attempts w + 1"
    if "env_get_object env ''org.bluez'' (pair_device_path a) (sys w) = (Inr (), t1)"
      "env_pair env (pair_device_path a) t1 = (Inl e', t2)" "below_Exception e'"
    using pair_device_pair_raises [OF that] by (simp add: pair_attempts_def)
  have mt: "mount_attempts (snd (mount_device env dp mp w)) = mount_attempts w + 1"
    if "fst (mount_device env dp mp w) = Inr True"
    using that mount_device_attempts [of env dp mp w]
    by (auto simp add: mount_device_True_iff)
  have pt: "pair_attempts (snd (pair_device self env a w)) = pair_attempts w + 1"
    if "fst (pair_device self env a w) = Inr True"
    using that pair_device_attempts [of self env a w]
    by (auto simp add: pair_device_True_iff)
  show ?thesis
    using m p mf pf mt pt mount_device_True_iff [of env dp mp w]
      pair_device_True_iff [of self env a w]
    by blast
qed

theorem single_attempt_witness:
  "fst (mount_device denied_env ''/dev/sdb1'' ''/mnt/garmin'' w0) = Inr False \<and>
   mount_attempts (snd (mount_device denied_env ''/dev/sdb1'' ''/mnt/garmin'' w0)) = 1 \<and>
   fst (pair_device \<lparr>adapter_path = ''/org/bluez/hci0''\<rparr> pair_rejected_env
          ''AA:BB:CC:DD:EE:FF'' w0) = Inr False \<and>
   pair_attempts (snd (pair_device \<lparr>adapter_path = ''/org/bluez/hci0''\<rparr> pair_rejected_env
          ''AA:BB:CC:DD:EE:FF'' w0)) = 1 \<and>
   fst (mount_device (calm_env [] []) ''/dev/sdb1'' ''/mnt/garmin'' w0) = Inr True \<and>
   mount_attempts (snd (mount_device (calm_env [] []) ''/dev/sdb1'' ''/mnt/garmin'' w0)) = 1 \<and>
   fst (pair_device \<lparr>adapter_path = ''/org/bluez/hci0''\<rparr> (calm_env [] [])
          ''AA:BB:CC:DD:EE:FF'' w0) = Inr True \<and>
   pair_attempts (snd (pair_device \<lparr>adapter_path = ''/org/bluez/hci0''\<rparr> (calm_env [] [])
          ''AA:BB:CC:DD:EE:FF'' w0)) = 1"
  using single_attempt [where env = denied_env and dp = "''/dev/sdb1''" and mp = "''/mnt/garmin''"
      and w = w0 and self = "\<lparr>adapter_path = ''/org/bluez/hci0''\<rparr>"
      and a = "''AA:BB:CC:DD:EE:FF''" and ?s1.0 = 0 and ?s2.0 = 1
      and e = "PyExc ''PermissionError'' ''[Errno 13] Permission denied''"]
    single_attempt [where env = pair_rejected_env and dp = "''/dev/sdb1''"
      and mp = "''/mnt/garmin''" and w = w0
      and self = "\<lparr>adapter_path = ''/org/bluez/hci0''\<rparr>"
      and a = "''AA:BB:CC:DD:EE:FF''" and ?t1.0 = 0 and ?t2.0 = 0
      and e' = "PyExc ''DBusException'' ''org.bluez.Error.AuthenticationRejected''"]
    single_attempt [where env = "calm_env [] []" and dp = "''/dev/sdb1''"
      and mp = "''/mnt/garmin''" and w = w0
      and self = "\<lparr>adapter_path = ''/org/bluez/hci0''\<rparr>"
      and a = "''AA:BB:CC:DD:EE:FF''"]
  by (simp add: denied_env_def pair_rejected_env_def calm_env_def w0_def mount_attempts_def
      pair_attempts_def exc_defs)

section \<open>What reaches the caller when an operation fails\<close>

text \<open>
  C2, as stated, fails: on a bus with no adapter the constructor of the application
  ends with the generic exception that \<^verbatim>\<open>_get_bluetooth_adapter\<close> raises, whose class is
  no reason code of the taxonomy.
\<close>

theorem no_adapter_raw_exception:
  "fst (app_init (calm_env [] []) w0) =
     Inl (PyExc ''Exception'' ''No Bluetooth adapter found'') \<and>
   exc_class (PyExc ''Exception'' ''No Bluetooth adapter found'') \<notin> set error_taxonomy"
  by (simp add: app_init_def bt_manager_init_def get_bluetooth_adapter_def managed_objects_def
      bus_get_object_def io_defs calm_env_def w0_def error_taxonomy_def)

text \<open>
  C2, amended. A failure (an exception below \<^verbatim>\<open>Exception\<close>) arising inside mounting,
  Bluetooth discovery or pairing is never passed on to the caller: the operation prints
  the error's text after its own prefix and returns \<open>False\<close>, the empty list or
  \<open>False\<close>, a value that carries no reason code. Absence of a Bluetooth adapter is not
  caught: when the bus answers and manages no adapter, the constructor of the
  application ends with the generic exception
  \<^verbatim>\<open>Exception("No Bluetooth adapter found")\<close>.
\<close>

theorem failures_surface_unclassified:
  "(env_makedirs env mp (sys w) = (Inl e, s1) \<longrightarrow> below_Exception e \<longrightarrow>
      fst (mount_device env dp mp w) = Inr False \<and>
      stdout (snd (mount_device env dp mp w)) = stdout w @ [''Mount error: '' @ exc_str e]) \<and>
   (env_makedirs env mp (sys w) = (Inr (), s1) \<longrightarrow> env_mount env dp mp s1 = (Inl e, s2) \<longrightarrow>
    below_Exception e \<longrightarrow>
      fst (mount_device env dp mp w) = Inr False \<and>
      stdout (snd (mount_device env dp mp w)) = stdout w @ [''Mount error: '' @ exc_str e]) \<and>
   (env_get_object env ''org.bluez'' (pair_device_path a) (sys w) = (Inl e, s1) \<longrightarrow>
    below_Exception e \<longrightarrow>
      fst (pair_device self env a w) = Inr False \<and>
      stdout (snd (pair_device self env a w)) = stdout w @ [''Pairing error: '' @ exc_str e]) \<and>
   (env_get_object env ''org.bluez'' (pair_device_path a) (sys w) = (Inr (), s1) \<longrightarrow>
    env_pair env (pair_device_path a) s1 = (Inl e, s2) \<longrightarrow> below_Exception e \<longrightarrow>
      fst (pair_device self env a w) = Inr False \<and>
      stdout (snd (pair_device self env a w)) = stdout w @ [''Pairing error: '' @ exc_str e]) \<and>
   (env_start_discovery env (adapter_path self) (sys w) = (Inl e, s1) \<longrightarrow>
    below_Exception e \<longrightarrow>
      fst (discover_garmin_devices self env d w) = Inr [] \<and>
      stdout (snd (discover_garmin_devices self env d w)) =
        stdout w @ [''Bluetooth discovery error: '' @ exc_str e]) \<and>
   (env_start_discovery env (adapter_path self) (sys w) = (Inr (), s1) \<longrightarrow> d < 0 \<longrightarrow>
      fst (discover_garmin_devices self env d w) = Inr [] \<and>
      stdout (snd (discover_garmin_devices self env d w)) =
        stdout w @ [''Bluetooth discovery error: sleep length must be non-negative'']) \<and>
   (env_start_discovery env (adapter_path self) (sys w) = (Inr (), s1) \<longrightarrow> 0 \<le> d \<longrightarrow>
    env_stop_discovery env (adapter_path self) (env_elapse env d s1) = (Inl e, s2) \<longrightarrow>
    below_Exception e \<longrightarrow>
      fst (discover_garmin_devices self env d w) = Inr [] \<and>
      stdout (snd (discover_garmin_devices self env d w)) =
        stdout w @ [''Bluetooth discovery error: '' @ exc_str e]) \<and>
   (env_start_discovery env (adapter_path self) (sys w) = (Inr (), s1) \<longrightarrow> 0 \<le> d \<longrightarrow>
    env_stop_discovery env (adapter_path self) (env_elapse env d s1) = (Inr (), s2) \<longrightarrow>
    env_get_object env ''org.bluez'' ''/'' s2 = (Inl e, s3) \<longrightarrow>
    below_Exception e \<longrightarrow>
      fst (discover_garmin_devices self env d w) = Inr [] \<and>
      stdout (snd (discover_garmin_devices self env d w)) =
        stdout w @ [''Bluetooth discovery error: '' @ exc_str e]) \<and>
   (env_start_discovery env (adapter_path self) (sys w) = (Inr (), s1) \<longrightarrow> 0 \<le> d \<longrightarrow>
    env_stop_discovery env (adapter_path self) (env_elapse env d s1) = (Inr (), s2) \<longrightarrow>
    env_get_object env ''org.bluez'' ''/'' s2 = (Inr (), s3) \<longrightarrow>
    env_get_managed_objects env s3 = (Inl e, s4) \<longrightarrow>
    below_Exception e \<longrightarrow>
      fst (discover_garmin_devices self env d w) = Inr [] \<and>
      stdout (snd (discover_garmin_devices self env d w)) =
        stdout w @ [''Bluetooth discovery error: '' @ exc_str e]) \<and>
   (env_system_bus env (sys w) = (Inr (), s1) \<longrightarrow>
    env_get_object env ''org.bluez'' ''/'' s1 = (Inr (), s2) \<longrightarrow>
    env_get_managed_objects env s2 = (Inr objects, s3) \<longrightarrow>
    (\<forall>(path, interfaces) \<in> set objects. interfaces ''org.bluez.Adapter1'' = None) \<longrightarrow>
      fst (app_init env w) = Inl (PyExc ''Exception'' ''No Bluetooth adapter found''))"
proof (intro conjI impI)
  assume "env_makedirs env mp (sys w) = (Inl e, s1)" "below_Exception e"
  from mount_device_makedirs_raises [OF this]
  show "fst (mount_device env dp mp w) = Inr False"
    and "stdout (snd (mount_device env dp mp w)) = stdout w @ [''Mount error: '' @ exc_str e]"
    by simp_all
next
  assume "env_makedirs env mp (sys w) = (Inr (), s1)" "env_mount env dp mp s1 = (Inl e, s2)"
    "below_Exception e"
  from mount_device_mount_raises [OF this]
  show "fst (mount_device env dp mp w) = Inr False"
    and "stdout (snd (mount_device env dp mp w)) = stdout w @ [''Mount error: '' @ exc_str e]"
    by simp_all
next
  assume "env_get_object env ''org.bluez'' (pair_device_path a) (sys w) = (Inl e, s1)"
    "below_Exception e"
  from pair_device_get_object_raises [OF this]
  show "fst (pair_device self env a w) = Inr False"
    and "stdout (snd (pair_device self env a w)) = stdout w @ [''Pairing error: '' @ exc_str e]"
    by simp_all
next
  assume "env_get_object env ''org.bluez'' (pair_device_path a) (sys w) = (Inr (), s1)"
    "env_pair env (pair_device_path a) s1 = (Inl e, s2)" "below_Exception e"
  from pair_device_pair_raises [OF this]
  show "fst (pair_device self env a w) = Inr False"
    and "stdout (snd (pair_device self env a w)) = stdout w @ [''Pairing error: '' @ exc_str e]"
    by simp_all
next
  assume "env_start_discovery env (adapter_path self) (sys w) = (Inl e, s1)"
    "below_Exception e"
  from discover_start_raises [OF this]
  show "fst (discover_garmin_devices self env d w) = Inr []"
    and "stdout (snd (discover_garmin_devices self env d w)) =
        stdout w @ [''Bluetooth discovery error: '' @ exc_str e]"
    by simp_all
next
  assume "env_start_discovery env (adapter_path self) (sys w) = (Inr (), s1)" "d < 0"
  from discover_sleep_raises [OF this]
  show "fst (discover_garmin_devices self env d w) = Inr []"
    and "stdout (snd (discover_garmin_devices self env d w)) =
        stdout w @ [''Bluetooth discovery error: sleep length must be non-negative'']"
    by simp_all
next
  assume "env_start_discovery env (adapter_path self) (sys w) = (Inr (), s1)" "0 \<le> d"
    "env_stop_discovery env (adapter_path self) (env_elapse env d s1) = (Inl e, s2)"
    "below_Exception e"
  from discover_stop_raises [OF this]
  show "fst (discover_garmin_devices self env d w) = Inr []"
    and "stdout (snd (discover_garmin_devices self env d w)) =
        stdout w @ [''Bluetooth discovery error: '' @ exc_str e]"
    by simp_all
next
  assume "env_start_discovery env (adapter_path self) (sys w) = (Inr (), s1)" "0 \<le> d"
    "env_stop_discovery env (adapter_path self) (env_elapse env d s1) = (Inr (), s2)"
    "env_get_object env ''org.bluez'' ''/'' s2 = (Inl e, s3)"
    "below_Exception e"
  from discover_get_object_raises [OF this]
  show "fst (discover_garmin_devices self env d w) = Inr []"
    and "stdout (snd (discover_garmin_devices self env d w)) =
        stdout w @ [''Bluetooth discovery error: '' @ exc_str e]"
    by simp_all
next
  assume "env_start_discovery env (adapter_path self) (sys w) = (Inr (), s1)" "0 \<le> d"
    "env_stop_discovery env (adapter_path self) (env_elapse env d s1) = (Inr (), s2)"
    "env_get_object env ''org.bluez'' ''/'' s2 = (Inr (), s3)"
    "env_get_managed_objects env s3 = (Inl e, s4)"
    "below_Exception e"
  from discover_enumeration_raises [OF this]
  show "fst (discover_garmin_devices self env d w) = Inr []"
    and "stdout (snd (discover_garmin_devices self env d w)) =
        stdout w @ [''Bluetooth discovery error: '' @ exc_str e]"
    by simp_all
next
  assume "env_system_bus env (sys w) = (Inr (), s1)"
    "env_get_object env ''org.bluez'' ''/'' s1 = (Inr (), s2)"
    "env_get_managed_objects env s2 = (Inr objects, s3)"
    "\<forall>(path, interfaces) \<in> set objects. interfaces ''org.bluez.Adapter1'' = None"
  from app_init_no_adapter [OF this]
  show "fst (app_init env w) = Inl (PyExc ''Exception'' ''No Bluetooth adapter found'')"
    by simp
qed

theorem failures_surface_unclassified_witness:
  "fst (mount_device mkdir_fails_env ''/dev/sdb1'' ''/mnt/garmin'' w0) = Inr False \<and>
   stdout (snd (mount_device mkdir_fails_env ''/dev/sdb1'' ''/mnt/garmin'' w0)) =
     [''Mount error: [Errno 30] Read-only file system''] \<and>
   fst (mount_device denied_env ''/dev/sdb1'' ''/mnt/garmin'' w0) = Inr False \<and>
   stdout (snd (mount_device denied_env ''/dev/sdb1'' ''/mnt/garmin'' w0)) =
     [''Mount error: [Errno 13] Permission denied''] \<and>
   fst (pair_device \<lparr>adapter_path = ''/org/bluez/hci0''\<rparr> no_object_env
          ''AA:BB:CC:DD:EE:FF'' w0) = Inr False \<and>
   stdout (snd (pair_device \<lparr>adapter_path = ''/org/bluez/hci0''\<rparr> no_object_env
          ''AA:BB:CC:DD:EE:FF'' w0)) =
     [''Pairing error: org.freedesktop.DBus.Error.ServiceUnknown''] \<and>
   fst (discover_garmin_devices \<lparr>adapter_path = ''/org/bluez/hci0''\<rparr> no_object_env 10 w0) =
     Inr [] \<and>
   stdout (snd (discover_garmin_devices \<lparr>adapter_path = ''/org/bluez/hci0''\<rparr>
          no_object_env 10 w0)) =
     [''Bluetooth discovery error: org.freedesktop.DBus.Error.ServiceUnknown''] \<and>
   fst (pair_device \<lparr>adapter_path = ''/org/bluez/hci0''\<rparr> pair_rejected_env
          ''AA:BB:CC:DD:EE:FF'' w0) = Inr False \<and>
   stdout (snd (pair_device \<lparr>adapter_path = ''/org/bluez/hci0''\<rparr> pair_rejected_env
          ''AA:BB:CC:DD:EE:FF'' w0)) =
     [''Pairing error: org.bluez.Error.AuthenticationRejected''] \<and>
   fst (discover_garmin_devices \<lparr>adapter_path = ''/org/bluez/hci0''\<rparr> start_fails_env 10 w0) =
     Inr [] \<and>
   stdout (snd (discover_garmin_devices \<lparr>adapter_path = ''/org/bluez/hci0''\<rparr>
          start_fails_env 10 w0)) =
     [''Bluetooth discovery error: org.bluez.Error.NotReady''] \<and>
   fst (discover_garmin_devices \<lparr>adapter_path = ''/org/bluez/hci0''\<rparr>
          (calm_env sample_objects []) (- 1) w0) = Inr [] \<and>
   stdout (snd (discover_garmin_devices \<lparr>adapter_path = ''/org/bluez/hci0''\<rparr>
          (calm_env sample_objects []) (- 1) w0)) =
     [''Bluetooth discovery error: sleep length must be non-negative''] \<and>
   fst (discover_garmin_devices \<lparr>adapter_path = ''/org/bluez/hci0''\<rparr>
          (stop_fails_env sample_objects) 10 w0) = Inr [] \<and>
   stdout (snd (discover_garmin_devices \<lparr>adapter_path = ''/org/bluez/hci0''\<rparr>
          (stop_fails_env sample_objects) 10 w0)) =
     [''Bluetooth discovery error: org.bluez.Error.Failed''] \<and>
   fst (discover_garmin_devices \<lparr>adapter_path = ''/org/bluez/hci0''\<rparr>
          enumeration_fails_env 10 w0) = Inr [] \<and>
   stdout (snd (discover_garmin_devices \<lparr>adapter_path = ''/org/bluez/hci0''\<rparr>
          enumeration_fails_env 10 w0)) =
     [''Bluetooth discovery error: org.freedesktop.DBus.Error.NoReply''] \<and>
   fst (app_init (calm_env
          [(''/org/bluez/hci0/dev_AA_BB_CC_DD_EE_FF'',
            [''org.bluez.Device1'' \<mapsto> [''Name'' \<mapsto> ''Garmin Edge 530'']])] []) w0) =
     Inl (PyExc ''Exception'' ''No Bluetooth adapter found'')"
proof -
  have mkdir: "fst (mount_device mkdir_fails_env ''/dev/sdb1'' ''/mnt/garmin'' w0) = Inr False \<and>
      stdout (snd (mount_device mkdir_fails_env ''/dev/sdb1'' ''/mnt/garmin'' w0)) =
        [''Mount error: [Errno 30] Read-only file system'']"
    using failures_surface_unclassified
      [where w = w0 and mp = "''/mnt/garmin''" and dp = "''/dev/sdb1''"
        and a = "''AA:BB:CC:DD:EE:FF''" and self = "\<lparr>adapter_path = ''/org/bluez/hci0''\<rparr>"
        and env = mkdir_fails_env and d = 10 and e = "PyExc ''OSError'' ''[Errno 30] Read-only file system''"
        and ?s1.0 = 0 and ?s2.0 = 0 and ?s3.0 = 0 and ?s4.0 = 0 and objects = "[]"]
    by (simp add: calm_env_def w0_def exc_defs mkdir_fails_env_def)
  have denied: "fst (mount_device denied_env ''/dev/sdb1'' ''/mnt/garmin'' w0) = Inr False \<and>
      stdout (snd (mount_device denied_env ''/dev/sdb1'' ''/mnt/garmin'' w0)) =
        [''Mount error: [Errno 13] Permission denied'']"
    using failures_surface_unclassified
      [where w = w0 and mp = "''/mnt/garmin''" and dp = "''/dev/sdb1''"
        and a = "''AA:BB:CC:DD:EE:FF''" and self = "\<lparr>adapter_path = ''/org/bluez/hci0''\<rparr>"
        and env = denied_env and d = 10 and e = "PyExc ''PermissionError'' ''[Errno 13] Permission denied''"
        and ?s1.0 = 0 and ?s2.0 = 1 and ?s3.0 = 0 and ?s4.0 = 0 and objects = "[]"]
    by (simp add: calm_env_def w0_def exc_defs denied_env_def)
  have noobj: "fst (pair_device \<lparr>adapter_path = ''/org/bluez/hci0''\<rparr> no_object_env
             ''AA:BB:CC:DD:EE:FF'' w0) = Inr False \<and>
      stdout (snd (pair_device \<lparr>adapter_path = ''/org/bluez/hci0''\<rparr> no_object_env
             ''AA:BB:CC:DD:EE:FF'' w0)) =
        [''Pairing error: org.freedesktop.DBus.Error.ServiceUnknown''] \<and>
      fst (discover_garmin_devices \<lparr>adapter_path = ''/org/bluez/hci0''\<rparr> no_object_env 10 w0) =
        Inr [] \<and>
      stdout (snd (discover_garmin_devices \<lparr>adapter_path = ''/org/bluez/hci0''\<rparr>
             no_object_env 10 w0)) =
        [''Bluetooth discovery error: org.freedesktop.DBus.Error.ServiceUnknown'']"
    using failures_surface_unclassified
      [where w = w0 and mp = "''/mnt/garmin''" and dp = "''/dev/sdb1''"
        and a = "''AA:BB:CC:DD:EE:FF''" and self = "\<lparr>adapter_path = ''/org/bluez/hci0''\<rparr>"
        and env = no_object_env and d = 10 and e = "PyExc ''DBusException'' ''org.freedesktop.DBus.Error.ServiceUnknown''"
        and ?s1.0 = 0 and ?s2.0 = 0 and ?s3.0 = 0 and ?s4.0 = 0 and objects = "[]"]
    by (simp add: calm_env_def w0_def exc_defs no_object_env_def)
  have rejected: "fst (pair_device \<lparr>adapter_path = ''/org/bluez/hci0''\<rparr> pair_rejected_env
             ''AA:BB:CC:DD:EE:FF'' w0) = Inr False \<and>
      stdout (snd (pair_device \<lparr>adapter_path = ''/org/bluez/hci0''\<rparr> pair_rejected_env
             ''AA:BB:CC:DD:EE:FF'' w0)) =
        [''Pairing error: org.bluez.Error.AuthenticationRejected'']"
    using failures_surface_unclassified
      [where w = w0 and mp = "''/mnt/garmin''" and dp = "''/dev/sdb1''"
        and a = "''AA:BB:CC:DD:EE:FF''" and self = "\<lparr>adapter_path = ''/org/bluez/hci0''\<rparr>"
        and env = pair_rejected_env and d = 10 and e = "PyExc ''DBusException'' ''org.bluez.Error.AuthenticationRejected''"
        and ?s1.0 = 0 and ?s2.0 = 0 and ?s3.0 = 0 and ?s4.0 = 0 and objects = "[]"]
    by (simp add: calm_env_def w0_def exc_defs pair_rejected_env_def)
  have start: "fst (discover_garmin_devices \<lparr>adapter_path = ''/org/bluez/hci0''\<rparr> start_fails_env 10 w0) =
        Inr [] \<and>
      stdout (snd (discover_garmin_devices \<lparr>adapter_path = ''/org/bluez/hci0''\<rparr>
             start_fails_env 10 w0)) =
        [''Bluetooth discovery error: org.bluez.Error.NotReady'']"
    using failures_surface_unclassified
      [where w = w0 and mp = "''/mnt/garmin''" and dp = "''/dev/sdb1''"
        and a = "''AA:BB:CC:DD:EE:FF''" and self = "\<lparr>adapter_path = ''/org/bluez/hci0''\<rparr>"
        and env = start_fails_env and d = 10 and e = "PyExc ''DBusException'' ''org.bluez.Error.NotReady''"
        and ?s1.0 = 0 and ?s2.0 = 0 and ?s3.0 = 0 and ?s4.0 = 0 and objects = "[]"]
    by (simp add: calm_env_def w0_def exc_defs start_fails_env_def)
  have sleep: "fst (discover_garmin_devices \<lparr>adapter_path = ''/org/bluez/hci0''\<rparr>
             (calm_env sample_objects []) (- 1) w0) = Inr [] \<and>
      stdout (snd (discover_garmin_devices \<lparr>adapter_path = ''/org/bluez/hci0''\<rparr>
             (calm_env sample_objects []) (- 1) w0)) =
        [''Bluetooth discovery error: sleep length must be non-negative'']"
    using failures_surface_unclassified
      [where w = w0 and mp = "''/mnt/garmin''" and dp = "''/dev/sdb1''"
        and a = "''AA:BB:CC:DD:EE:FF''" and self = "\<lparr>adapter_path = ''/org/bluez/hci0''\<rparr>"
        and env = "calm_env sample_objects []" and d = "- 1" and e = "PyExc ''ValueError'' []"
        and ?s1.0 = 0 and ?s2.0 = 0 and ?s3.0 = 0 and ?s4.0 = 0 and objects = "[]"]
    by (simp add: calm_env_def w0_def exc_defs)
  have stop: "fst (discover_garmin_devices \<lparr>adapter_path = ''/org/bluez/hci0''\<rparr>
             (stop_fails_env sample_objects) 10 w0) = Inr [] \<and>
      stdout (snd (discover_garmin_devices \<lparr>adapter_path = ''/org/bluez/hci0''\<rparr>
             (stop_fails_env sample_objects) 10 w0)) =
        [''Bluetooth discovery error: org.bluez.Error.Failed'']"
    using failures_surface_unclassified
      [where w = w0 and mp = "''/mnt/garmin''" and dp = "''/dev/sdb1''"
        and a = "''AA:BB:CC:DD:EE:FF''" and self = "\<lparr>adapter_path = ''/org/bluez/hci0''\<rparr>"
        and env = "stop_fails_env sample_objects" and d = 10 and e = "PyExc ''DBusException'' ''org.bluez.Error.Failed''"
        and ?s1.0 = 0 and ?s2.0 = 0 and ?s3.0 = 0 and ?s4.0 = 0 and objects = "[]"]
    by (simp add: calm_env_def w0_def exc_defs stop_fails_env_def)
  have enum: "fst (discover_garmin_devices \<lparr>adapter_path = ''/org/bluez/hci0''\<rparr>
             enumeration_fails_env 10 w0) = Inr [] \<and>
      stdout (snd (discover_garmin_devices \<lparr>adapter_path = ''/org/bluez/hci0''\<rparr>
             enumeration_fails_env 10 w0)) =
        [''Bluetooth discovery error: org.freedesktop.DBus.Error.NoReply'']"
    using failures_surface_unclassified
      [where w = w0 and mp = "''/mnt/garmin''" and dp = "''/dev/sdb1''"
        and a = "''AA:BB:CC:DD:EE:FF''" and self = "\<lparr>adapter_path = ''/org/bluez/hci0''\<rparr>"
        and env = enumeration_fails_env and d = 10 and e = "PyExc ''DBusException'' ''org.freedesktop.DBus.Error.NoReply''"
        and ?s1.0 = 0 and ?s2.0 = 0 and ?s3.0 = 0 and ?s4.0 = 0 and objects = "[]"]
    by (simp add: calm_env_def w0_def exc_defs enumeration_fails_env_def)
  have absent: "fst (app_init (calm_env
          [(''/org/bluez/hci0/dev_AA_BB_CC_DD_EE_FF'',
            [''org.bluez.Device1'' \<mapsto> [''Name'' \<mapsto> ''Garmin Edge 530'']])] []) w0) =
        Inl (PyExc ''Exception'' ''No Bluetooth adapter found'')"
    using failures_surface_unclassified
      [where w = w0 and mp = "''/mnt/garmin''" and dp = "''/dev/sdb1''"
        and a = "''AA:BB:CC:DD:EE:FF''" and self = "\<lparr>adapter_path = ''/org/bluez/hci0''\<rparr>"
        and env = "calm_env [(''/org/bluez/hci0/dev_AA_BB_CC_DD_EE_FF'',
            [''org.bluez.Device1'' \<mapsto> [''Name'' \<mapsto> ''Garmin Edge 530'']])] []" and d = 10 and e = "PyExc ''Exception'' []"
        and ?s1.0 = 0 and ?s2.0 = 0 and ?s3.0 = 0 and ?s4.0 = 0 and objects = "[(''/org/bluez/hci0/dev_AA_BB_CC_DD_EE_FF'',
            [''org.bluez.Device1'' \<mapsto> [''Name'' \<mapsto> ''Garmin Edge 530'']])]"]
    by (simp add: calm_env_def w0_def exc_defs)
  show ?thesis
    using mkdir denied noobj rejected start sleep stop enum absent by blast
qed

section \<open>The bus path of a pairing\<close>

text \<open>
  C8. \<^verbatim>\<open>pair_device\<close> does not depend on the adapter path the manager resolved: it asks
  the bus for the object at \<^verbatim>\<open>/org/bluez/hci0/dev_\<close> followed by the address with
  each colon replaced by an underscore, and issues the pairing call, when the bus
  returned the object, on that same path.
\<close>

theorem pair_device_fixed_hci0:
  "pair_device self env a w = pair_device self' env a w \<and>
   pair_device_path a = ''/org/bluez/hci0/dev_'' @ replace_char (CHR '':'') (CHR ''_'') a \<and>
   trace (snd (pair_device self env a w)) =
     trace w @ GetObject ''org.bluez'' (pair_device_path a) #
       (case fst (env_get_object env ''org.bluez'' (pair_device_path a) (sys w)) of
          Inl e \<Rightarrow> []
        | Inr u \<Rightarrow> [PairCall (pair_device_path a)])"
proof -
  have "pair_device self env a w = pair_device self' env a w"
    by (simp add: pair_device_def)
  moreover have "pair_device_path a =
      ''/org/bluez/hci0/dev_'' @ replace_char (CHR '':'') (CHR ''_'') a"
    by (simp add: pair_device_path_def)
  ultimately show ?thesis
    using pair_device_trace [of self env a w] by blast
qed

theorem pair_device_fixed_hci0_witness:
  "trace (snd (pair_device \<lparr>adapter_path = ''/org/bluez/hci1''\<rparr> (calm_env sample_objects [])
            ''AA:BB:CC:DD:EE:FF'' w0)) =
     [GetObject ''org.bluez'' ''/org/bluez/hci0/dev_AA_BB_CC_DD_EE_FF'',
      PairCall ''/org/bluez/hci0/dev_AA_BB_CC_DD_EE_FF'']"
  using pair_device_fixed_hci0 [of "\<lparr>adapter_path = ''/org/bluez/hci1''\<rparr>"
      "calm_env sample_objects []" "''AA:BB:CC:DD:EE:FF''" w0]
  by (simp add: pair_device_path_def replace_char_def calm_env_def w0_def)

section \<open>Bluetooth discovery\<close>

text \<open>
  C5. The calls of \<^verbatim>\<open>discover_garmin_devices\<close> are, in every run, an initial part of
  the sequence: start the discovery on the adapter, sleep for the duration, stop the
  discovery, fetch the root object, enumerate the managed objects. When none of them
  fails and the duration is not negative, all five are made and the result is the
  address and name of exactly the objects that implement the device interface and
  whose name contains \<^verbatim>\<open>Garmin\<close>.
\<close>

theorem discover_steps:
  "(\<exists>k. trace (snd (discover_garmin_devices self env d w)) =
      trace w @ take k [StartDiscovery (adapter_path self), Sleep d,
                        StopDiscovery (adapter_path self),
                        GetObject ''org.bluez'' ''/'', GetManagedObjects]) \<and>
   (env_start_discovery env (adapter_path self) (sys w) = (Inr (), s1) \<longrightarrow>
    0 \<le> d \<longrightarrow>
    env_stop_discovery env (adapter_path self) (env_elapse env d s1) = (Inr (), s2) \<longrightarrow>
    env_get_object env ''org.bluez'' ''/'' s2 = (Inr (), s3) \<longrightarrow>
    env_get_managed_objects env s3 = (Inr objects, s4) \<longrightarrow>
      fst (discover_garmin_devices self env d w) = Inr (garmin_named objects) \<and>
      trace (snd (discover_garmin_devices self env d w)) =
        trace w @ [StartDiscovery (adapter_path self), Sleep d,
                   StopDiscovery (adapter_path self),
                   GetObject ''org.bluez'' ''/'', GetManagedObjects] \<and>
      (\<forall>x. x \<in> set (garmin_named objects) \<longleftrightarrow>
         (\<exists>path interfaces device. (path, interfaces) \<in> set objects \<and>
            interfaces ''org.bluez.Device1'' = Some device \<and>
            (\<exists>pre post. props_get device ''Name'' [] = pre @ ''Garmin'' @ post) \<and>
            x = \<lparr>bt_address = props_get device ''Address'' [],
                  bt_name = props_get device ''Name'' []\<rparr>)))"
proof (intro conjI impI)
  show "\<exists>k. trace (snd (discover_garmin_devices self env d w)) =
      trace w @ take k [StartDiscovery (adapter_path self), Sleep d,
                        StopDiscovery (adapter_path self),
                        GetObject ''org.bluez'' ''/'', GetManagedObjects]"
    by (rule discover_trace_prefix)
next
  assume run: "env_start_discovery env (adapter_path self) (sys w) = (Inr (), s1)"
    "0 \<le> d"
    "env_stop_discovery env (adapter_path self) (env_elapse env d s1) = (Inr (), s2)"
    "env_get_object env ''org.bluez'' ''/'' s2 = (Inr (), s3)"
    "env_get_managed_objects env s3 = (Inr objects, s4)"
  from discover_ok [OF run]
  show "fst (discover_garmin_devices self env d w) = Inr (garmin_named objects)"
    and "trace (snd (discover_garmin_devices self env d w)) =
        trace w @ [StartDiscovery (adapter_path self), Sleep d,
                   StopDiscovery (adapter_path self),
                   GetObject ''org.bluez'' ''/'', GetManagedObjects]"
    by simp_all
  show "\<forall>x. x \<in> set (garmin_named objects) \<longleftrightarrow>
         (\<exists>path interfaces device. (path, interfaces) \<in> set objects \<and>
            interfaces ''org.bluez.Device1'' = Some device \<and>
            (\<exists>pre post. props_get device ''Name'' [] = pre @ ''Garmin'' @ post) \<and>
            x = \<lparr>bt_address = props_get device ''Address'' [],
                  bt_name = props_get device ''Name'' []\<rparr>)"
    using garmin_named_member [of _ objects] by blast
qed

theorem discover_steps_witness:
  "fst (discover_garmin_devices \<lparr>adapter_path = ''/org/bluez/hci0''\<rparr>
          (calm_env sample_objects []) 10 w0) =
     Inr [\<lparr>bt_address = ''AA:BB:CC:DD:EE:FF'', bt_name = ''Garmin Edge 530''\<rparr>] \<and>
   trace (snd (discover_garmin_devices \<lparr>adapter_path = ''/org/bluez/hci0''\<rparr>
          (calm_env sample_objects []) 10 w0)) =
     [StartDiscovery ''/org/bluez/hci0'', Sleep 10, StopDiscovery ''/org/bluez/hci0'',
      GetObject ''org.bluez'' ''/'', GetManagedObjects]"
proof -
  have "garmin_named sample_objects =
      [\<lparr>bt_address = ''AA:BB:CC:DD:EE:FF'', bt_name = ''Garmin Edge 530''\<rparr>]"
    by (simp add: garmin_named_def sample_objects_def props_get_def)
  then show ?thesis
    using discover_steps [of "\<lparr>adapter_path = ''/org/bluez/hci0''\<rparr>"
        "calm_env sample_objects []" 10 w0 0 0 0 sample_objects 0]
    by (simp add: calm_env_def w0_def)
qed

text \<open>
  C10. Whatever error is raised during the discovery (in starting it, in the sleep, in
  stopping it, in fetching the root object, in enumerating the managed objects),
  \<^verbatim>\<open>discover_garmin_devices\<close> returns the empty list; a discovery in which nothing
  fails and no managed object is a device named \<^verbatim>\<open>Garmin\<close> returns the empty list
  too. An error is an exception below \<^verbatim>\<open>Exception\<close>.
\<close>

theorem discover_error_returns_empty:
  "((\<exists>e s1. env_start_discovery env (adapter_path self) (sys w) = (Inl e, s1) \<and>
       below_Exception e) \<or>
    (\<exists>s1. env_start_discovery env (adapter_path self) (sys w) = (Inr (), s1) \<and> d < 0) \<or>
    (\<exists>e s1 s2. env_start_discovery env (adapter_path self) (sys w) = (Inr (), s1) \<and> 0 \<le> d \<and>
       env_stop_discovery env (adapter_path self) (env_elapse env d s1) = (Inl e, s2) \<and>
       below_Exception e) \<or>
    (\<exists>e s1 s2 s3. env_start_discovery env (adapter_path self) (sys w) = (Inr (), s1) \<and> 0 \<le> d \<and>
       env_stop_discovery env (adapter_path self) (env_elapse env d s1) = (Inr (), s2) \<and>
       env_get_object env ''org.bluez'' ''/'' s2 = (Inl e, s3) \<and> below_Exception e) \<or>
    (\<exists>e s1 s2 s3 s4. env_start_discovery env (adapter_path self) (sys w) = (Inr (), s1) \<and> 0 \<le> d \<and>
       env_stop_discovery env (adapter_path self) (env_elapse env d s1) = (Inr (), s2) \<and>
       env_get_object env ''org.bluez'' ''/'' s2 = (Inr (), s3) \<and>
       env_get_managed_objects env s3 = (Inl e, s4) \<and> below_Exception e)
      \<longrightarrow> fst (discover_garmin_devices self env d w) = Inr []) \<and>
   ((\<exists>s1 s2 s3 s4 objects.
       env_start_discovery env (adapter_path self) (sys w) = (Inr (), s1) \<and> 0 \<le> d \<and>
       env_stop_discovery env (adapter_path self) (env_elapse env d s1) = (Inr (), s2) \<and>
       env_get_object env ''org.bluez'' ''/'' s2 = (Inr (), s3) \<and>
       env_get_managed_objects env s3 = (Inr objects, s4) \<and> garmin_named objects = [])
      \<longrightarrow> fst (discover_garmin_devices self env d w) = Inr [])"
proof -
  let ?empty = "fst (discover_garmin_devices self env d w) = Inr []"
  have 1: ?empty
    if "env_start_discovery env (adapter_path self) (sys w) = (Inl e, s1)" "below_Exception e"
    for e s1
    using discover_start_raises [OF that] by simp
  have 2: ?empty
    if "env_start_discovery env (adapter_path self) (sys w) = (Inr (), s1)" "d < 0"
    for s1
    using discover_sleep_raises [OF that] by simp
  have 3: ?empty
    if "env_start_discovery env (adapter_path self) (sys w) = (Inr (), s1)" "0 \<le> d"
      "env_stop_discovery env (adapter_path self) (env_elapse env d s1) = (Inl e, s2)"
      "below_Exception e"
    for e s1 s2
    using discover_stop_raises [OF that] by simp
  have 4: ?empty
    if "env_start_discovery env (adapter_path self) (sys w) = (Inr (), s1)" "0 \<le> d"
      "env_stop_discovery env (adapter_path self) (env_elapse env d s1) = (Inr (), s2)"
      "env_get_object env ''org.bluez'' ''/'' s2 = (Inl e, s3)" "below_Exception e"
    for e s1 s2 s3
    using discover_get_object_raises [OF that] by simp
  have 5: ?empty
    if "env_start_discovery env (adapter_path self) (sys w) = (Inr (), s1)" "0 \<le> d"
      "env_stop_discovery env (adapter_path self) (env_elapse env d s1) = (Inr (), s2)"
      "env_get_object env ''org.bluez'' ''/'' s2 = (Inr (), s3)"
      "env_get_managed_objects env s3 = (Inl e, s4)" "below_Exception e"
    for e s1 s2 s3 s4
    using discover_enumeration_raises [OF that] by simp
  have 6: ?empty
    if "env_start_discovery env (adapter_path self) (sys w) = (Inr (), s1)" "0 \<le> d"
      "env_stop_discovery env (adapter_path self) (env_elapse env d s1) = (Inr (), s2)"
      "env_get_object env ''org.bluez'' ''/'' s2 = (Inr (), s3)"
      "env_get_managed_objects env s3 = (Inr objects, s4)" "garmin_named objects = []"
    for s1 s2 s3 s4 objects
    using discover_ok [OF that(1-5)] that(6) by simp
  show ?thesis
    using 1 2 3 4 5 6 by blast
qed

theorem discover_error_returns_empty_witness:
  "fst (discover_garmin_devices \<lparr>adapter_path = ''/org/bluez/hci0''\<rparr>
          (stop_fails_env sample_objects) 10 w0) = Inr [] \<and>
   fst (discover_garmin_devices \<lparr>adapter_path = ''/org/bluez/hci0''\<rparr>
          (calm_env [] []) 10 w0) = Inr []"
  using discover_error_returns_empty [of "stop_fails_env sample_objects"
      "\<lparr>adapter_path = ''/org/bluez/hci0''\<rparr>" w0 10]
    discover_error_returns_empty [of "calm_env [] []"
      "\<lparr>adapter_path = ''/org/bluez/hci0''\<rparr>" w0 10]
  by (simp add: stop_fails_env_def calm_env_def w0_def garmin_named_def exc_defs)

section \<open>File extraction\<close>

lemma lower_char_dot: "lower_char c = CHR ''.'' \<longleftrightarrow> c = CHR ''.''"
  by (simp add: lower_char_def split: if_splits)

lemma extension_append:
  assumes "CHR ''.'' \<notin> set t"
  shows "extension (pre @ CHR ''.'' # t) = CHR ''.'' # t"
proof -
  let ?P = "\<lambda>c. c \<noteq> CHR ''.''"
  have "takeWhile ?P (rev t @ CHR ''.'' # rev pre) = rev t @ takeWhile ?P (CHR ''.'' # rev pre)"
    by (rule takeWhile_append2) (use assms in auto)
  then show ?thesis by (simp add: extension_def)
qed

lemma extension_suffix:
  assumes "CHR ''.'' \<in> set name"
  shows "\<exists>pre. name = pre @ extension name"
proof -
  let ?P = "\<lambda>c. c \<noteq> CHR ''.''"
  from assms have "dropWhile ?P (rev name) \<noteq> []" by auto
  then obtain c rest where dw: "dropWhile ?P (rev name) = c # rest"
    by (cases "dropWhile ?P (rev name)") auto
  then have "\<not> ?P c" using hd_dropWhile [of ?P "rev name"] by auto
  then have c: "c = CHR ''.''" by simp
  have "rev name = takeWhile ?P (rev name) @ dropWhile ?P (rev name)" by simp
  with dw c have "rev name = takeWhile ?P (rev name) @ CHR ''.'' # rest" by simp
  then have "rev (rev name) = rev (takeWhile ?P (rev name) @ CHR ''.'' # rest)" by simp
  then have "name = rev rest @ CHR ''.'' # rev (takeWhile ?P (rev name))" by simp
  with assms have "name = rev rest @ extension name" by (simp add: extension_def)
  then show ?thesis ..
qed

lemma lower_dot_fit:
  assumes "lower s = ''.fit''"
  shows "\<exists>t. s = CHR ''.'' # t \<and> CHR ''.'' \<notin> set t"
proof -
  from assms obtain c1 c2 c3 c4 where s: "s = [c1, c2, c3, c4]"
    and l: "lower_char c1 = CHR ''.''" "lower_char c2 = CHR ''f''"
      "lower_char c3 = CHR ''i''" "lower_char c4 = CHR ''t''"
    by (auto simp add: lower_def map_eq_Cons_conv)
  from l have "c1 = CHR ''.''" "c2 \<noteq> CHR ''.''" "c3 \<noteq> CHR ''.''" "c4 \<noteq> CHR ''.''"
    by (auto simp add: lower_char_dot) (simp_all add: lower_char_def)
  with s show ?thesis by simp
qed

lemma endswith_fit_iff: "endswith (lower f) ''.fit'' \<longleftrightarrow> lower (extension f) = ''.fit''"
proof
  assume e: "endswith (lower f) ''.fit''"
  then have len: "4 \<le> length f" and d: "lower (drop (length f - 4) f) = ''.fit''"
    by (simp_all add: endswith_def lower_def drop_map eval_nat_numeral)
  from lower_dot_fit [OF d] obtain t where t: "drop (length f - 4) f = CHR ''.'' # t"
    "CHR ''.'' \<notin> set t" by auto
  have "f = take (length f - 4) f @ drop (length f - 4) f" by simp
  with t have "f = take (length f - 4) f @ CHR ''.'' # t" by simp
  then have "extension f = extension (take (length f - 4) f @ CHR ''.'' # t)" by simp
  with t have "extension f = drop (length f - 4) f" by (simp add: extension_append)
  with d show "lower (extension f) = ''.fit''" by simp
next
  assume x: "lower (extension f) = ''.fit''"
  then have "extension f \<noteq> []" by (auto simp add: lower_def)
  then have "CHR ''.'' \<in> set f" by (auto simp add: extension_def split: if_splits)
  from extension_suffix [OF this] obtain pre where pre: "f = pre @ extension f" by auto
  from x have l4: "length (extension f) = 4"
    using length_map [of lower_char "extension f"] by (simp add: lower_def)
  from pre have "lower f = lower pre @ lower (extension f)"
    by (metis lower_def map_append)
  with x have "lower f = lower pre @ ''.fit''" by simp
  then show "endswith (lower f) ''.fit''" by (simp add: endswith_def)
qed

lemma extract_loop_append:
  "extract_loop entries acc =
     acc @ concat (map (\<lambda>(root, dirs, files).
       map (os_path_join root) (filter (\<lambda>f. lower (extension f) = ''.fit'') files)) entries)"
  by (induction entries acc rule: extract_loop.induct) (simp_all add: endswith_fit_iff)

lemma extract_fit_files_run:
  "extract_fit_files env mp w =
     (Inr (concat (map (\<lambda>(root, dirs, files).
        map (os_path_join root) (filter (\<lambda>f. lower (extension f) = ''.fit'') files))
        (env_walk env mp (sys w)))),
      w\<lparr>trace := trace w @ [Walk mp]\<rparr>)"
  by (simp add: extract_fit_files_def os_walk_def io_defs extract_loop_append)

lemma no_fit_files:
  assumes "\<forall>(root, dirs, files) \<in> set entries. \<forall>f \<in> set files. lower (extension f) \<noteq> ''.fit''"
  shows "concat (map (\<lambda>(root, dirs, files).
       map (os_path_join root) (filter (\<lambda>f. lower (extension f) = ''.fit'') files)) entries) = []"
  using assms by (induction entries) (auto simp add: filter_empty_conv)

text \<open>
  C3. \<^verbatim>\<open>extract_fit_files\<close> walks the mount point once and returns, in the order of
  the walk, the path of every listed file whose extension is \<^verbatim>\<open>.fit\<close> in any mix of
  upper and lower case, and of no other file. Over the files \<^verbatim>\<open>a.FIT\<close>, \<^verbatim>\<open>b.fit\<close> and
  \<^verbatim>\<open>c.txt\<close> it returns the paths of \<^verbatim>\<open>a.FIT\<close> and \<^verbatim>\<open>b.fit\<close>.
\<close>

theorem extract_fit_files_exact:
  "extract_fit_files env mp w =
     (Inr (concat (map (\<lambda>(root, dirs, files).
        map (os_path_join root) (filter (\<lambda>f. lower (extension f) = ''.fit'') files))
        (env_walk env mp (sys w)))),
      w\<lparr>trace := trace w @ [Walk mp]\<rparr>) \<and>
   fst (extract_fit_files (calm_env [] [File ''a.FIT'', File ''b.fit'', File ''c.txt''])
          ''/mnt/garmin'' w0) =
     Inr [''/mnt/garmin/a.FIT'', ''/mnt/garmin/b.fit'']"
proof
  show "extract_fit_files env mp w =
     (Inr (concat (map (\<lambda>(root, dirs, files).
        map (os_path_join root) (filter (\<lambda>f. lower (extension f) = ''.fit'') files))
        (env_walk env mp (sys w)))),
      w\<lparr>trace := trace w @ [Walk mp]\<rparr>)"
    by (rule extract_fit_files_run)
  show "fst (extract_fit_files (calm_env [] [File ''a.FIT'', File ''b.fit'', File ''c.txt''])
          ''/mnt/garmin'' w0) =
     Inr [''/mnt/garmin/a.FIT'', ''/mnt/garmin/b.fit'']"
    by (simp add: extract_fit_files_def os_walk_def io_defs calm_env_def w0_def
        os_path_join_def endswith_def lower_def lower_char_def)
qed

theorem extract_fit_files_exact_witness:
  "extract_fit_files
     (calm_env [] [File ''a.FIT'', Dir ''Activity'' [File ''b.fit'', File ''c.txt''], File ''notes'']) 
     ''/mnt/garmin'' w0 =
     (Inr [''/mnt/garmin/a.FIT'', ''/mnt/garmin/Activity/b.fit''],
      \<lparr>sys = 0, trace = [Walk ''/mnt/garmin''], stdout = []\<rparr>)"
  using extract_fit_files_exact [of
      "calm_env [] [File ''a.FIT'', Dir ''Activity'' [File ''b.fit'', File ''c.txt''], File ''notes'']" 
      "''/mnt/garmin''" w0]
  by (simp add: calm_env_def w0_def os_path_join_def endswith_def extension_def lower_def
      lower_char_def)

lemma mount_usb_device_mount_failed:
  assumes "mount_device env (split_head '' - '' info) GARMIN_MOUNTPOINT w = (Inr False, w1)"
  shows "mount_usb_device env info w = (Inr (), w1)"
  using assms by (simp add: mount_usb_device_def Let_def seq_def ret_def)

lemma mount_usb_device_no_files:
  assumes "mount_device env (split_head '' - '' info) GARMIN_MOUNTPOINT w = (Inr True, w1)"
    and "\<forall>(root, dirs, files) \<in> set (env_walk env GARMIN_MOUNTPOINT (sys w1)).
           \<forall>f \<in> set files. lower (extension f) \<noteq> ''.fit''"
  shows "mount_usb_device env info w =
           (Inr (), w1\<lparr>trace := trace w1 @
              [Walk GARMIN_MOUNTPOINT,
               MessageBox Warning ''No FIT Files'' ''No FIT files found on device'']\<rparr>)"
  using assms(1) no_fit_files [OF assms(2)]
  by (simp add: mount_usb_device_def Let_def seq_def ret_def extract_fit_files_run
      QMessageBox_def)

text \<open>
  C7. Over a walk that lists no file with the extension \<^verbatim>\<open>.fit\<close>,
  \<^verbatim>\<open>extract_fit_files\<close> returns the empty list and raises nothing. In the handler, a
  mount that succeeded on such a tree ends normally with the notice
  \<^verbatim>\<open>No FIT Files\<close>, while after a mount that failed the handler does nothing more: no
  walk, no notice.
\<close>

theorem no_fit_files_is_normal:
  "((\<forall>(root, dirs, files) \<in> set (env_walk env mp (sys w)).
       \<forall>f \<in> set files. lower (extension f) \<noteq> ''.fit'') \<longrightarrow>
      extract_fit_files env mp w = (Inr [], w\<lparr>trace := trace w @ [Walk mp]\<rparr>)) \<and>
   (mount_device env (split_head '' - '' info) GARMIN_MOUNTPOINT w = (Inr True, w1) \<longrightarrow>
    (\<forall>(root, dirs, files) \<in> set (env_walk env GARMIN_MOUNTPOINT (sys w1)).
       \<forall>f \<in> set files. lower (extension f) \<noteq> ''.fit'') \<longrightarrow>
      mount_usb_device env info w =
        (Inr (), w1\<lparr>trace := trace w1 @
           [Walk GARMIN_MOUNTPOINT,
            MessageBox Warning ''No FIT Files'' ''No FIT files found on device'']\<rparr>)) \<and>
   (mount_device env (split_head '' - '' info) GARMIN_MOUNTPOINT w = (Inr False, w2) \<longrightarrow>
      mount_usb_device env info w = (Inr (), w2))"
proof (intro conjI impI)
  assume "\<forall>(root, dirs, files) \<in> set (env_walk env mp (sys w)).
       \<forall>f \<in> set files. lower (extension f) \<noteq> ''.fit''"
  from no_fit_files [OF this]
  show "extract_fit_files env mp w = (Inr [], w\<lparr>trace := trace w @ [Walk mp]\<rparr>)"
    by (simp add: extract_fit_files_run)
next
  assume "mount_device env (split_head '' - '' info) GARMIN_MOUNTPOINT w = (Inr True, w1)"
    and "\<forall>(root, dirs, files) \<in> set (env_walk env GARMIN_MOUNTPOINT (sys w1)).
       \<forall>f \<in> set files. lower (extension f) \<noteq> ''.fit''"
  then show "mount_usb_device env info w =
        (Inr (), w1\<lparr>trace := trace w1 @
           [Walk GARMIN_MOUNTPOINT,
            MessageBox Warning ''No FIT Files'' ''No FIT files found on device'']\<rparr>)"
    by (rule mount_usb_device_no_files)
next
  assume "mount_device env (split_head '' - '' info) GARMIN_MOUNTPOINT w = (Inr False, w2)"
  then show "mount_usb_device env info w = (Inr (), w2)"
    by (rule mount_usb_device_mount_failed)
qed

theorem no_fit_files_is_normal_witness:
  "extract_fit_files (calm_env [] [File ''c.txt'', Dir ''Activity'' []]) ''/mnt/garmin'' w0 =
     (Inr [], \<lparr>sys = 0, trace = [Walk ''/mnt/garmin''], stdout = []\<rparr>) \<and>
   mount_usb_device (calm_env [] [File ''c.txt'', Dir ''Activity'' []]) ''/dev/sdb1 - GARMIN'' w0 =
     (Inr (),
      \<lparr>sys = 1,
       trace = [Makedirs ''/mnt/garmin'', Mount ''/dev/sdb1'' ''/mnt/garmin'',
                Walk ''/mnt/garmin'',
                MessageBox Warning ''No FIT Files'' ''No FIT files found on device''],
       stdout = []\<rparr>) \<and>
   mount_usb_device denied_env ''/dev/sdb1 - GARMIN'' w0 =
     (Inr (),
      \<lparr>sys = 1, trace = [Makedirs ''/mnt/garmin'', Mount ''/dev/sdb1'' ''/mnt/garmin''],
       stdout = [''Mount error: [Errno 13] Permission denied'']\<rparr>)"
proof -
  have m1: "mount_device (calm_env [] [File ''c.txt'', Dir ''Activity'' []])
              (split_head '' - '' ''/dev/sdb1 - GARMIN'') GARMIN_MOUNTPOINT w0 =
        (Inr True,
         \<lparr>sys = 1, trace = [Makedirs ''/mnt/garmin'', Mount ''/dev/sdb1'' ''/mnt/garmin''],
          stdout = []\<rparr>)"
    by (simp add: mount_device_def os_makedirs_def mount_mount_def io_defs calm_env_def w0_def
        GARMIN_MOUNTPOINT_def)
  have m2: "mount_device denied_env (split_head '' - '' ''/dev/sdb1 - GARMIN'')
              GARMIN_MOUNTPOINT w0 =
        (Inr False,
         \<lparr>sys = 1, trace = [Makedirs ''/mnt/garmin'', Mount ''/dev/sdb1'' ''/mnt/garmin''],
          stdout = [''Mount error: [Errno 13] Permission denied'']\<rparr>)"
    by (simp add: mount_device_def os_makedirs_def mount_mount_def io_defs exc_defs denied_env_def
        calm_env_def w0_def GARMIN_MOUNTPOINT_def)
  have x: "lower (extension ''c.txt'') \<noteq> ''.fit''"
    by (simp add: extension_def lower_def lower_char_def)
  show ?thesis
    using no_fit_files_is_normal [of "calm_env [] [File ''c.txt'', Dir ''Activity'' []]"
        "''/mnt/garmin''" w0 "''/dev/sdb1 - GARMIN''" _ _] 
      no_fit_files_is_normal [of denied_env "''/mnt/garmin''" w0 "''/dev/sdb1 - GARMIN''" _ _]
      m1 m2 x
    by (simp add: calm_env_def w0_def GARMIN_MOUNTPOINT_def os_path_join_def endswith_def)
qed

section \<open>USB discovery\<close>

lemma detect_loop_filter:
  "detect_loop partitions acc =
     acc @ map (\<lambda>device.
         \<lparr>usb_device_path = device_node device, usb_mount_path = GARMIN_MOUNTPOINT,
          usb_label = device_get device ''ID_FS_LABEL'' ''Garmin Device''\<rparr>)
       (filter (\<lambda>device. device_get device ''ID_VENDOR_ID'' [] = ''91e'') partitions)"
  by (induction partitions acc rule: detect_loop.induct)
     (simp_all add: py_hex_def GARMIN_USB_VENDOR_ID_def hex_digits.simps digit_char_def)

text \<open>
  C1 fails on the code. \<^verbatim>\<open>hex(0x091E)[2:]\<close> is \<^verbatim>\<open>91e\<close>, without the leading zero,
  so a partition whose vendor id is the four-digit \<^verbatim>\<open>091e\<close> that udev reports (or
  \<^verbatim>\<open>091E\<close>) is not matched: of two partitions, one of them Garmin's, no descriptor is
  returned.
\<close>

theorem detect_misses_garmin_vendor_id:
  "drop 2 (py_hex GARMIN_USB_VENDOR_ID) = ''91e'' \<and>
   detect_usb_devices (two_partitions ''091e'') = [] \<and>
   detect_usb_devices (two_partitions ''091E'') = []"
  by (simp add: detect_usb_devices_def two_partitions_def device_get_def py_hex_def
      GARMIN_USB_VENDOR_ID_def hex_digits.simps digit_char_def)

text \<open>
  Only a vendor id spelt \<^verbatim>\<open>91e\<close> is matched; for such a partition with no file system
  label the descriptor's label is \<^verbatim>\<open>Garmin Device\<close>.
\<close>

lemma detect_three_digit_vendor_id:
  "detect_usb_devices (two_partitions ''91e'') =
     [\<lparr>usb_device_path = ''/dev/sdb1'', usb_mount_path = ''/mnt/garmin'',
       usb_label = ''Garmin Device''\<rparr>]"
  by (simp add: detect_usb_devices_def two_partitions_def device_get_def py_hex_def
      GARMIN_USB_VENDOR_ID_def GARMIN_MOUNTPOINT_def hex_digits.simps digit_char_def)

end
